theory Spec2Isabelle
  imports Complex_Main
begin

section \<open>JavaScript numbers\<close>

text \<open>
  The indicator code computes on JavaScript numbers. The model keeps the special values
  that decide the behaviour of the code (\<open>NaN\<close>, \<open>Infinity\<close>, \<open>-Infinity\<close>) and takes
  every other number as a real: rounding of the binary representation, overflow of a
  finite result to an infinity, and the sign of zero are outside the model.
  An array read outside its bounds gives \<open>undefined\<close>; every such read of the indicator
  code feeds an arithmetic operator or a comparison, where \<open>undefined\<close> behaves as
  \<open>NaN\<close> does, so numeric reads return \<open>NaN\<close> there.
\<close>

datatype jsnum = Num real | PosInf | NegInf | NaN

fun jneg :: "jsnum \<Rightarrow> jsnum" where
  "jneg (Num a) = Num (- a)"
| "jneg PosInf = NegInf"
| "jneg NegInf = PosInf"
| "jneg NaN = NaN"

fun jadd :: "jsnum \<Rightarrow> jsnum \<Rightarrow> jsnum" where
  "jadd (Num a) (Num b) = Num (a + b)"
| "jadd NaN y = NaN"
| "jadd x NaN = NaN"
| "jadd PosInf NegInf = NaN"
| "jadd NegInf PosInf = NaN"
| "jadd PosInf y = PosInf"
| "jadd x PosInf = PosInf"
| "jadd NegInf y = NegInf"
| "jadd x NegInf = NegInf"

definition jsub :: "jsnum \<Rightarrow> jsnum \<Rightarrow> jsnum" where
  "jsub x y = jadd x (jneg y)"

text \<open>The sign of a number that is not \<open>NaN\<close>: \<open>-1\<close>, \<open>0\<close> or \<open>1\<close>.\<close>

fun jsign :: "jsnum \<Rightarrow> int" where
  "jsign (Num a) = (if a < 0 then - 1 else if a = 0 then 0 else 1)"
| "jsign PosInf = 1"
| "jsign NegInf = - 1"
| "jsign NaN = 0"

definition inf_of_sign :: "int \<Rightarrow> jsnum" where
  "inf_of_sign s = (if s < 0 then NegInf else PosInf)"

fun jmul :: "jsnum \<Rightarrow> jsnum \<Rightarrow> jsnum" where
  "jmul (Num a) (Num b) = Num (a * b)"
| "jmul NaN y = NaN"
| "jmul x NaN = NaN"
| "jmul x y = (if jsign x * jsign y = 0 then NaN else inf_of_sign (jsign x * jsign y))"

fun jdiv :: "jsnum \<Rightarrow> jsnum \<Rightarrow> jsnum" where
  "jdiv (Num a) (Num b) =
     (if b \<noteq> 0 then Num (a / b)
      else if a = 0 then NaN
      else if 0 < a then PosInf else NegInf)"
| "jdiv NaN y = NaN"
| "jdiv x NaN = NaN"
| "jdiv (Num a) y = Num 0"
| "jdiv x (Num b) = (if b < 0 then jneg x else x)"
| "jdiv x y = NaN"

fun jlt :: "jsnum \<Rightarrow> jsnum \<Rightarrow> bool" where
  "jlt (Num a) (Num b) = (a < b)"
| "jlt NaN y = False"
| "jlt x NaN = False"
| "jlt x PosInf = (x \<noteq> PosInf)"
| "jlt NegInf y = (y \<noteq> NegInf)"
| "jlt x y = False"

definition jgt :: "jsnum \<Rightarrow> jsnum \<Rightarrow> bool" where
  "jgt x y = jlt y x"

text \<open>Truthiness of a number: \<open>0\<close> and \<open>NaN\<close> are falsy.\<close>

fun truthy :: "jsnum \<Rightarrow> bool" where
  "truthy (Num a) = (a \<noteq> 0)"
| "truthy NaN = False"
| "truthy x = True"

fun jabs :: "jsnum \<Rightarrow> jsnum" where
  "jabs (Num a) = Num \<bar>a\<bar>"
| "jabs NaN = NaN"
| "jabs x = PosInf"

text \<open>\<open>Math.max\<close> of two numbers; \<open>Math.max(a, b, c)\<close> is \<open>jmax (jmax a b) c\<close>.\<close>

definition jmax :: "jsnum \<Rightarrow> jsnum \<Rightarrow> jsnum" where
  "jmax x y = (if x = NaN \<or> y = NaN then NaN else if jlt x y then y else x)"

fun jsqrt :: "jsnum \<Rightarrow> jsnum" where
  "jsqrt (Num a) = (if a < 0 then NaN else Num (sqrt a))"
| "jsqrt PosInf = PosInf"
| "jsqrt x = NaN"

text \<open>\<open>Math.pow(x, 2)\<close>.\<close>

fun jsquare :: "jsnum \<Rightarrow> jsnum" where
  "jsquare (Num a) = Num (a * a)"
| "jsquare NaN = NaN"
| "jsquare x = PosInf"

text \<open>
  \<open>parseFloat(x.toFixed(d))\<close>: \<open>toFixed\<close> takes the integer \<open>n\<close> with \<open>n / 10^d\<close> closest to
  the magnitude of \<open>x\<close>, the larger one of two, and prints magnitudes from \<open>10^21\<close> on
  (and the special values) unrounded; \<open>parseFloat\<close> reads the printed number back.
\<close>

definition round_fixed :: "nat \<Rightarrow> real \<Rightarrow> real" where
  "round_fixed d a =
     (if 10 ^ 21 \<le> \<bar>a\<bar> then a
      else if a < 0 then - (of_int \<lfloor>(- a) * 10 ^ d + 1 / 2\<rfloor> / 10 ^ d)
      else of_int \<lfloor>a * 10 ^ d + 1 / 2\<rfloor> / 10 ^ d)"

fun fixed :: "nat \<Rightarrow> jsnum \<Rightarrow> jsnum" where
  "fixed d (Num a) = Num (round_fixed d a)"
| "fixed d x = x"

text \<open>
  A numeric read \<open>xs[i]\<close>, and the read as it is when the value is stored or tested
  (\<open>None\<close> is \<open>undefined\<close>). The index is an integer: the loops of the code subtract
  from it.
\<close>

definition at_opt :: "'a list \<Rightarrow> int \<Rightarrow> 'a option" where
  "at_opt xs i = (if 0 \<le> i \<and> i < int (length xs) then Some (xs ! nat i) else None)"

definition to_num :: "jsnum option \<Rightarrow> jsnum" where
  "to_num v = (case v of None \<Rightarrow> NaN | Some x \<Rightarrow> x)"

definition num_at :: "jsnum list \<Rightarrow> int \<Rightarrow> jsnum" where
  "num_at xs i = to_num (at_opt xs i)"

text \<open>\<open>xs.reduce((a, b) => a + b, 0)\<close> and the \<open>sum += ...\<close> loops.\<close>

definition jsum :: "jsnum list \<Rightarrow> jsnum" where
  "jsum xs = foldl jadd (Num 0) xs"

section \<open>The indicator library\<close>

text \<open>
  \<open>TechnicalIndicators.SMA.calculate\<close>: for \<open>i\<close> from \<open>period - 1\<close> to the last index, the
  sum of \<open>values[i - j]\<close> for \<open>j < period\<close>, divided by the period.
\<close>

definition window :: "jsnum list \<Rightarrow> nat \<Rightarrow> int \<Rightarrow> jsnum list" where
  "window values period i = map (\<lambda>j. num_at values (i - int j)) [0..<period]"

definition SMA :: "nat \<Rightarrow> jsnum list \<Rightarrow> jsnum list" where
  "SMA period values =
     map (\<lambda>i. jdiv (jsum (window values period i)) (Num (real period)))
       [int period - 1 .. int (length values) - 1]"

text \<open>
  \<open>TechnicalIndicators.EMA.calculate\<close>: the first value is the mean of the first
  \<open>period\<close> reads (also when the array is shorter), every later one comes from the
  value pushed before it.
\<close>

fun ema_run :: "jsnum \<Rightarrow> jsnum \<Rightarrow> jsnum list \<Rightarrow> jsnum list" where
  "ema_run multiplier prev [] = []"
| "ema_run multiplier prev (x # xs) =
     (let ema = jadd (jmul x multiplier) (jmul prev (jsub (Num 1) multiplier))
      in ema # ema_run multiplier ema xs)"

definition EMA :: "nat \<Rightarrow> jsnum list \<Rightarrow> jsnum list" where
  "EMA period values =
     (let multiplier = jdiv (Num 2) (jadd (Num (real period)) (Num 1));
          first = jdiv (jsum (map (\<lambda>i. num_at values (int i)) [0..<period])) (Num (real period))
      in first # ema_run multiplier first (drop period values))"

text \<open>
  \<open>TechnicalIndicators.RSI.calculate\<close>: gains and losses of successive changes, their
  means over the first \<open>period\<close> changes, and one value for every later change.
\<close>

definition changes :: "jsnum list \<Rightarrow> jsnum list" where
  "changes values = map (\<lambda>i. jsub (num_at values i) (num_at values (i - 1))) [1 .. int (length values) - 1]"

definition gain_of :: "jsnum \<Rightarrow> jsnum" where
  "gain_of change = (if jgt change (Num 0) then change else Num 0)"

definition loss_of :: "jsnum \<Rightarrow> jsnum" where
  "loss_of change = (if jlt change (Num 0) then jabs change else Num 0)"

definition rsi_of :: "jsnum \<Rightarrow> jsnum \<Rightarrow> jsnum" where
  "rsi_of avgGain avgLoss =
     (let rs = jdiv avgGain avgLoss
      in jsub (Num 100) (jdiv (Num 100) (jadd (Num 1) rs)))"

definition smooth :: "nat \<Rightarrow> jsnum \<Rightarrow> jsnum \<Rightarrow> jsnum" where
  "smooth period avg x =
     jdiv (jadd (jmul avg (jsub (Num (real period)) (Num 1))) x) (Num (real period))"

fun rsi_run :: "nat \<Rightarrow> jsnum \<Rightarrow> jsnum \<Rightarrow> (jsnum \<times> jsnum) list \<Rightarrow> jsnum list" where
  "rsi_run period avgGain avgLoss [] = []"
| "rsi_run period avgGain avgLoss ((g, l) # rest) =
     (let avgGain' = smooth period avgGain g;
          avgLoss' = smooth period avgLoss l
      in rsi_of avgGain' avgLoss' # rsi_run period avgGain' avgLoss' rest)"

definition RSI :: "jsnum list \<Rightarrow> nat \<Rightarrow> jsnum list" where
  "RSI values period =
     (let gains = map gain_of (changes values);
          losses = map loss_of (changes values);
          avgGain = jdiv (jsum (take period gains)) (Num (real period));
          avgLoss = jdiv (jsum (take period losses)) (Num (real period))
      in rsi_run period avgGain avgLoss (zip (drop period gains) (drop period losses)))"

text \<open>\<open>TechnicalIndicators.MACD.calculate\<close>; the field \<open>MACD\<close> is a stored read.\<close>

record macd_entry =
  MACD :: "jsnum option"
  signal :: jsnum
  histogram :: jsnum

definition macd_line :: "jsnum list \<Rightarrow> nat \<Rightarrow> nat \<Rightarrow> jsnum list" where
  "macd_line values fastPeriod slowPeriod =
     (let fastEMA = EMA fastPeriod values;
          slowEMA = EMA slowPeriod values;
          startIndex = int slowPeriod - int fastPeriod
      in map (\<lambda>i. jsub (num_at fastEMA (i + startIndex)) (num_at slowEMA i))
           [0 .. int (length fastEMA) - startIndex - 1])"

definition MACD_calculate :: "jsnum list \<Rightarrow> nat \<Rightarrow> nat \<Rightarrow> nat \<Rightarrow> macd_entry list" where
  "MACD_calculate values fastPeriod slowPeriod signalPeriod =
     (let macdLine = macd_line values fastPeriod slowPeriod;
          signalLine = EMA signalPeriod macdLine;
          signalStartIndex = int signalPeriod - 1
      in map (\<lambda>i. let macd = at_opt macdLine (int i + signalStartIndex);
                       signal = signalLine ! i
                   in \<lparr>MACD = macd, signal = signal, histogram = jsub (to_num macd) signal\<rparr>)
           [0..<length signalLine])"

text \<open>\<open>TechnicalIndicators.BollingerBands.calculate\<close>.\<close>

record bb_entry =
  upper :: jsnum
  middle :: jsnum
  lower :: jsnum

definition bb_at :: "jsnum list \<Rightarrow> nat \<Rightarrow> jsnum \<Rightarrow> int \<Rightarrow> bb_entry" where
  "bb_at values period stdDev i =
     (let sma = jdiv (jsum (window values period i)) (Num (real period));
          variance = jsum (map (\<lambda>v. jsquare (jsub v sma)) (window values period i));
          standardDeviation = jsqrt (jdiv variance (Num (real period)))
      in \<lparr>upper = jadd sma (jmul standardDeviation stdDev),
          middle = sma,
          lower = jsub sma (jmul standardDeviation stdDev)\<rparr>)"

definition BollingerBands :: "nat \<Rightarrow> jsnum list \<Rightarrow> jsnum \<Rightarrow> bb_entry list" where
  "BollingerBands period values stdDev =
     map (bb_at values period stdDev) [int period - 1 .. int (length values) - 1]"

text \<open>
  \<open>TechnicalIndicators.Stochastic.calculate\<close> (its fields \<open>k\<close> and \<open>d\<close> are
  \<open>percentK\<close> and \<open>percentD\<close> here): the highest high and the lowest low of
  the window start from the values at \<open>i\<close> and are replaced by a strictly greater
  (smaller) value at \<open>i - j\<close>, \<open>j\<close> from \<open>1\<close> to \<open>period - 1\<close>.
\<close>

definition highestHigh :: "jsnum list \<Rightarrow> nat \<Rightarrow> int \<Rightarrow> jsnum" where
  "highestHigh high period i =
     foldl (\<lambda>h j. if jgt (num_at high (i - int j)) h then num_at high (i - int j) else h)
       (num_at high i) [1..<period]"

definition lowestLow :: "jsnum list \<Rightarrow> nat \<Rightarrow> int \<Rightarrow> jsnum" where
  "lowestLow low period i =
     foldl (\<lambda>l j. if jlt (num_at low (i - int j)) l then num_at low (i - int j) else l)
       (num_at low i) [1..<period]"

definition percent_k :: "jsnum \<Rightarrow> jsnum \<Rightarrow> jsnum \<Rightarrow> jsnum" where
  "percent_k c hh ll = jmul (jdiv (jsub c ll) (jsub hh ll)) (Num 100)"

definition stoch_k :: "jsnum list \<Rightarrow> jsnum list \<Rightarrow> jsnum list \<Rightarrow> nat \<Rightarrow> int \<Rightarrow> jsnum" where
  "stoch_k high low close period i =
     percent_k (num_at close i) (highestHigh high period i) (lowestLow low period i)"

record stoch_entry =
  percentK :: "jsnum option"
  percentD :: jsnum

definition Stochastic ::
  "jsnum list \<Rightarrow> jsnum list \<Rightarrow> jsnum list \<Rightarrow> nat \<Rightarrow> nat \<Rightarrow> stoch_entry list" where
  "Stochastic high low close period signalPeriod =
     (let kValues = map (stoch_k high low close period) [int period - 1 .. int (length close) - 1];
          dValues = SMA signalPeriod kValues;
          dStartIndex = int signalPeriod - 1
      in map (\<lambda>i. \<lparr>percentK = at_opt kValues (int i + dStartIndex), percentD = dValues ! i\<rparr>)
           [0..<length dValues])"

text \<open>\<open>TechnicalIndicators.ATR.calculate\<close>.\<close>

definition true_range :: "jsnum list \<Rightarrow> jsnum list \<Rightarrow> jsnum list \<Rightarrow> int \<Rightarrow> jsnum" where
  "true_range high low close i =
     (let tr1 = jsub (num_at high i) (num_at low i);
          tr2 = jabs (jsub (num_at high i) (num_at close (i - 1)));
          tr3 = jabs (jsub (num_at low i) (num_at close (i - 1)))
      in jmax (jmax tr1 tr2) tr3)"

definition ATR :: "jsnum list \<Rightarrow> jsnum list \<Rightarrow> jsnum list \<Rightarrow> nat \<Rightarrow> jsnum list" where
  "ATR high low close period =
     SMA period (map (true_range high low close) [1 .. int (length close) - 1])"

section \<open>The stock service\<close>

text \<open>
  A bar of a series (its field \<open>open\<close> is \<open>open_px\<close> here). The date is any type: the
  indicator code copies dates and never computes on them.
\<close>

record 'd bar =
  date :: 'd
  open_px :: jsnum
  high :: jsnum
  low :: jsnum
  close :: jsnum
  volume :: jsnum

text \<open>
  The per-date records the service returns; \<open>None\<close> in a field is \<open>null\<close>.
  \<open>MockPoint\<close> is the record of \<open>getMockIndicatorData\<close>, which has no price.
\<close>

datatype 'd point =
    ValuePoint (pdate: 'd) "jsnum option" jsnum
  | MacdPoint (pdate: 'd) "jsnum option" "jsnum option" "jsnum option"
  | BollingerPoint (pdate: 'd) "jsnum option" "jsnum option" "jsnum option" jsnum
  | StochPoint (pdate: 'd) "jsnum option" "jsnum option"
  | MockPoint (pdate: 'd) "jsnum option"

text \<open>
  Reading a field of a record: a field the record does not have reads as \<open>undefined\<close>,
  which every test and comparison of the code treats as it treats \<open>null\<close>.
\<close>

fun value_of :: "'d point \<Rightarrow> jsnum option" where
  "value_of (ValuePoint dt v p) = v"
| "value_of (MockPoint dt v) = v"
| "value_of pt = None"

fun macd_of :: "'d point \<Rightarrow> jsnum option" where
  "macd_of (MacdPoint dt m s h) = m"
| "macd_of pt = None"

fun signal_of :: "'d point \<Rightarrow> jsnum option" where
  "signal_of (MacdPoint dt m s h) = s"
| "signal_of pt = None"

fun histogram_of :: "'d point \<Rightarrow> jsnum option" where
  "histogram_of (MacdPoint dt m s h) = h"
| "histogram_of pt = None"

fun upper_of :: "'d point \<Rightarrow> jsnum option" where
  "upper_of (BollingerPoint dt u m l p) = u"
| "upper_of pt = None"

fun lower_of :: "'d point \<Rightarrow> jsnum option" where
  "lower_of (BollingerPoint dt u m l p) = l"
| "lower_of pt = None"

fun k_of :: "'d point \<Rightarrow> jsnum option" where
  "k_of (StochPoint dt pk pd) = pk"
| "k_of pt = None"

datatype error = Error string | TypeError

text \<open>
  \<open>mapIndicatorToData\<close>: the value at a date is the indicator value at
  \<open>index - (period - 1)\<close>, rounded to four decimals, when that index is not negative and
  the value read there is truthy, and \<open>null\<close> otherwise.
\<close>

definition mapIndicatorToData :: "'d bar list \<Rightarrow> jsnum list \<Rightarrow> nat \<Rightarrow> 'd point list" where
  "mapIndicatorToData historicalData indicatorValues period =
     map (\<lambda>index.
            let dataPoint = historicalData ! index;
                indicatorIndex = int index - (int period - 1)
            in ValuePoint (date dataPoint)
                 (if 0 \<le> indicatorIndex \<and> truthy (num_at indicatorValues indicatorIndex)
                  then Some (fixed 4 (num_at indicatorValues indicatorIndex))
                  else None)
                 (close dataPoint))
       [0..<length historicalData]"

text \<open>
  \<open>String.prototype.toLowerCase\<close> on strings of code units below 256: the capital
  letters of ASCII and of Latin-1 move up by 32.
\<close>

definition lower_char :: "char \<Rightarrow> char" where
  "lower_char c =
     (let n = (of_char c :: nat)
      in if (65 \<le> n \<and> n \<le> 90) \<or> (192 \<le> n \<and> n \<le> 222 \<and> n \<noteq> 215)
         then char_of (n + 32) else c)"

definition toLowerCase :: "string \<Rightarrow> string" where
  "toLowerCase s = map lower_char s"

text \<open>The per-date records of the three composite indicators.\<close>

definition macd_point :: "macd_entry list \<Rightarrow> 'd bar list \<Rightarrow> nat \<Rightarrow> 'd point" where
  "macd_point macd historicalData index =
     (case at_opt macd (int index - 25) of
        None \<Rightarrow> MacdPoint (date (historicalData ! index)) None None None
      | Some e \<Rightarrow>
          MacdPoint (date (historicalData ! index))
            (Some (case MACD e of None \<Rightarrow> NaN | Some m \<Rightarrow> fixed 4 m))
            (Some (fixed 4 (signal e)))
            (Some (fixed 4 (histogram e))))"

definition bb_point :: "bb_entry list \<Rightarrow> 'd bar list \<Rightarrow> nat \<Rightarrow> 'd point" where
  "bb_point bb historicalData index =
     (case at_opt bb (int index - 19) of
        None \<Rightarrow>
          BollingerPoint (date (historicalData ! index)) None None None
            (close (historicalData ! index))
      | Some e \<Rightarrow>
          BollingerPoint (date (historicalData ! index))
            (Some (fixed 2 (upper e))) (Some (fixed 2 (middle e))) (Some (fixed 2 (lower e)))
            (close (historicalData ! index)))"

definition stoch_point :: "stoch_entry list \<Rightarrow> 'd bar list \<Rightarrow> nat \<Rightarrow> 'd point" where
  "stoch_point stoch historicalData index =
     (case at_opt stoch (int index - 13) of
        None \<Rightarrow> StochPoint (date (historicalData ! index)) None None
      | Some e \<Rightarrow>
          StochPoint (date (historicalData ! index))
            (Some (case percentK e of None \<Rightarrow> NaN | Some v \<Rightarrow> fixed 2 v))
            (Some (fixed 2 (percentD e))))"

text \<open>
  \<open>calculateTechnicalIndicator\<close>: the switch on the lower-cased name; the default
  case throws.
\<close>

definition calculateTechnicalIndicator :: "'d bar list \<Rightarrow> string \<Rightarrow> error + 'd point list" where
  "calculateTechnicalIndicator historicalData indicator =
     (let closes = map close historicalData;
          highs = map high historicalData;
          lows = map low historicalData;
          name = toLowerCase indicator
      in if name = ''sma'' \<or> name = ''sma20'' then
           Inr (mapIndicatorToData historicalData (SMA 20 closes) 20)
         else if name = ''sma50'' then
           Inr (mapIndicatorToData historicalData (SMA 50 closes) 50)
         else if name = ''ema'' \<or> name = ''ema12'' then
           Inr (mapIndicatorToData historicalData (EMA 12 closes) 12)
         else if name = ''ema26'' then
           Inr (mapIndicatorToData historicalData (EMA 26 closes) 26)
         else if name = ''macd'' then
           Inr (map (macd_point (MACD_calculate closes 12 26 9) historicalData)
                  [0..<length historicalData])
         else if name = ''rsi'' then
           Inr (mapIndicatorToData historicalData (RSI closes 14) 14)
         else if name = ''bollinger'' \<or> name = ''bb'' then
           Inr (map (bb_point (BollingerBands 20 closes (Num 2)) historicalData)
                  [0..<length historicalData])
         else if name = ''stochastic'' then
           Inr (map (stoch_point (Stochastic highs lows closes 14 3) historicalData)
                  [0..<length historicalData])
         else if name = ''atr'' then
           Inr (mapIndicatorToData historicalData (ATR highs lows closes 14) 14)
         else Inl (Error (''Unsupported indicator: '' @ indicator)))"


subsection \<open>Trading signals\<close>

datatype signal_type = BUY | SELL

datatype strength = Medium | Strong

text \<open>
  A signal has the fields \<open>type\<close>, \<open>signal\<close>, \<open>strength\<close> and \<open>description\<close>, here
  with the prefix \<open>s_\<close>. A description is a fixed text, or a text around
  \<open>x.toFixed(2)\<close>; the number kept is the one printed.
\<close>

datatype description = Plain string | Around string jsnum string

record trading_signal =
  s_type :: signal_type
  s_signal :: string
  s_strength :: strength
  s_description :: description

record 'd indicators =
  sma20 :: "'d point list"
  sma50 :: "'d point list"
  ema12 :: "'d point list"
  ema26 :: "'d point list"
  rsi :: "'d point list"
  macd :: "'d point list"
  bb :: "'d point list"

text \<open>\<open>xs[xs.length - 1]\<close>, and \<open>xs[xs.length - 1]?.value\<close>.\<close>

definition latest :: "'a list \<Rightarrow> 'a option" where
  "latest xs = (if xs = [] then None else Some (last xs))"

definition latest_value :: "'d point list \<Rightarrow> jsnum option" where
  "latest_value xs = (case latest xs of None \<Rightarrow> None | Some pt \<Rightarrow> value_of pt)"

text \<open>Truthiness of a field: \<open>null\<close>, \<open>undefined\<close>, \<open>0\<close> and \<open>NaN\<close> are falsy.\<close>

definition present :: "jsnum option \<Rightarrow> bool" where
  "present v = (case v of None \<Rightarrow> False | Some x \<Rightarrow> truthy x)"

text \<open>
  A field as an operand of \<open><\<close> or \<open>>\<close>: \<open>null\<close> counts as \<open>0\<close>. The only comparisons
  the code makes on a field it has not tested are strict ones of the histogram with \<open>0\<close>,
  false for \<open>null\<close> and for \<open>undefined\<close> alike.
\<close>

definition operand :: "jsnum option \<Rightarrow> jsnum" where
  "operand v = (case v of None \<Rightarrow> Num 0 | Some x \<Rightarrow> x)"

definition golden_cross :: trading_signal where
  "golden_cross = \<lparr>s_type = BUY, s_signal = ''Golden Cross Pattern'', s_strength = Strong,
     s_description = Plain ''Price above SMA20, SMA20 above SMA50''\<rparr>"

definition death_cross :: trading_signal where
  "death_cross = \<lparr>s_type = SELL, s_signal = ''Death Cross Pattern'', s_strength = Strong,
     s_description = Plain ''Price below SMA20, SMA20 below SMA50''\<rparr>"

definition rsi_overbought :: "jsnum \<Rightarrow> trading_signal" where
  "rsi_overbought latestRSI = \<lparr>s_type = SELL, s_signal = ''RSI Overbought'', s_strength = Medium,
     s_description = Around ''RSI at '' (fixed 2 latestRSI) '' indicates overbought conditions''\<rparr>"

definition rsi_oversold :: "jsnum \<Rightarrow> trading_signal" where
  "rsi_oversold latestRSI = \<lparr>s_type = BUY, s_signal = ''RSI Oversold'', s_strength = Medium,
     s_description = Around ''RSI at '' (fixed 2 latestRSI) '' indicates oversold conditions''\<rparr>"

definition macd_bullish :: trading_signal where
  "macd_bullish = \<lparr>s_type = BUY, s_signal = ''MACD Bullish'', s_strength = Medium,
     s_description = Plain ''MACD line above signal line with positive histogram''\<rparr>"

definition macd_bearish :: trading_signal where
  "macd_bearish = \<lparr>s_type = SELL, s_signal = ''MACD Bearish'', s_strength = Medium,
     s_description = Plain ''MACD line below signal line with negative histogram''\<rparr>"

definition bollinger_upper :: trading_signal where
  "bollinger_upper = \<lparr>s_type = SELL, s_signal = ''Bollinger Upper Breach'', s_strength = Medium,
     s_description = Plain ''Price above upper Bollinger Band''\<rparr>"

definition bollinger_lower :: trading_signal where
  "bollinger_lower = \<lparr>s_type = BUY, s_signal = ''Bollinger Lower Breach'', s_strength = Medium,
     s_description = Plain ''Price below lower Bollinger Band''\<rparr>"

text \<open>The four rules of \<open>generateTradingSignals\<close>, each the signals it pushes.\<close>

definition ma_rule :: "jsnum \<Rightarrow> jsnum option \<Rightarrow> jsnum option \<Rightarrow> trading_signal list" where
  "ma_rule currentPrice latestSMA20 latestSMA50 =
     (if present latestSMA20 \<and> present latestSMA50 then
        (if jgt currentPrice (operand latestSMA20) \<and> jgt (operand latestSMA20) (operand latestSMA50)
         then [golden_cross]
         else if jlt currentPrice (operand latestSMA20) \<and> jlt (operand latestSMA20) (operand latestSMA50)
         then [death_cross]
         else [])
      else [])"

definition rsi_rule :: "jsnum option \<Rightarrow> trading_signal list" where
  "rsi_rule latestRSI =
     (if present latestRSI then
        (if jgt (operand latestRSI) (Num 70) then [rsi_overbought (operand latestRSI)]
         else if jlt (operand latestRSI) (Num 30) then [rsi_oversold (operand latestRSI)]
         else [])
      else [])"

definition macd_rule :: "'d point option \<Rightarrow> trading_signal list" where
  "macd_rule latestMACD =
     (case latestMACD of
        None \<Rightarrow> []
      | Some pt \<Rightarrow>
          if present (macd_of pt) \<and> present (signal_of pt) then
            (if jgt (operand (macd_of pt)) (operand (signal_of pt))
                \<and> jgt (operand (histogram_of pt)) (Num 0)
             then [macd_bullish]
             else if jlt (operand (macd_of pt)) (operand (signal_of pt))
                \<and> jlt (operand (histogram_of pt)) (Num 0)
             then [macd_bearish]
             else [])
          else [])"

definition bb_rule :: "jsnum \<Rightarrow> 'd point option \<Rightarrow> trading_signal list" where
  "bb_rule currentPrice latestBB =
     (case latestBB of
        None \<Rightarrow> []
      | Some pt \<Rightarrow>
          if present (upper_of pt) \<and> present (lower_of pt) then
            (if jgt currentPrice (operand (upper_of pt)) then [bollinger_upper]
             else if jlt currentPrice (operand (lower_of pt)) then [bollinger_lower]
             else [])
          else [])"

text \<open>
  \<open>generateTradingSignals\<close>: reading the close of the last bar of an empty series is a
  \<open>TypeError\<close>; otherwise the rules push their signals in turn.
\<close>

definition generateTradingSignals ::
  "'d bar list \<Rightarrow> 'd indicators \<Rightarrow> error + trading_signal list" where
  "generateTradingSignals historicalData indicators =
     (if historicalData = [] then Inl TypeError
      else
        let currentPrice = close (last historicalData);
            latestSMA20 = latest_value (sma20 indicators);
            latestSMA50 = latest_value (sma50 indicators);
            latestRSI = latest_value (rsi indicators);
            latestMACD = latest (macd indicators);
            latestBB = latest (bb indicators)
        in Inr (ma_rule currentPrice latestSMA20 latestSMA50
                @ rsi_rule latestRSI
                @ macd_rule latestMACD
                @ bb_rule currentPrice latestBB))"

subsection \<open>The synthetic generator\<close>

text \<open>
  \<open>getBasePrice\<close>: the sum of the character codes of the symbol, reduced modulo 490,
  plus 10.
\<close>

definition getBasePrice :: "string \<Rightarrow> nat" where
  "getBasePrice symbol = 10 + (foldl (\<lambda>baseValue c. baseValue + of_char c) 0 symbol) mod 490"

definition getNumDaysFromTimeRange :: "string \<Rightarrow> nat" where
  "getNumDaysFromTimeRange timeRange =
     (if timeRange = ''1d'' then 1
      else if timeRange = ''5d'' then 5
      else if timeRange = ''1w'' then 7
      else if timeRange = ''1m'' then 30
      else if timeRange = ''3m'' then 90
      else if timeRange = ''6m'' then 180
      else if timeRange = ''1y'' then 365
      else if timeRange = ''5y'' then 365 * 5
      else if timeRange = ''max'' then 365 * 10
      else 30)"

text \<open>
  The date of a synthetic bar. \<open>new Date()\<close> is a reading \<open>t\<close> of the clock, in
  milliseconds since the epoch. \<open>date.setDate(date.getDate() - i)\<close> works on local time:
  it takes the local time \<open>t + LocalTZA(t, true)\<close>, moves it back by \<open>i\<close> days (the day
  of the month may be zero or negative and then counts back into earlier months) and
  goes back to UTC with the offset \<open>LocalTZA(., false)\<close> that the time zone has at that
  local time. \<open>toISOString().split('T')[0]\<close> prints the UTC day of the result; a date is
  kept as the number of that day, counted from 1 January 1970. The readings of a real
  clock moved back by some years are valid time values, so \<open>toISOString\<close> does not throw.
\<close>

definition msPerDay :: int where
  "msPerDay = 86400000"

definition iso_day :: "(int \<Rightarrow> bool \<Rightarrow> int) \<Rightarrow> int \<Rightarrow> nat \<Rightarrow> int" where
  "iso_day LocalTZA t i =
     (let local = t + LocalTZA t True;
          moved = local - int i * msPerDay;
          utc = moved - LocalTZA moved False
      in utc div msPerDay)"

text \<open>
  \<open>getMockStockData\<close>. \<open>Math.random\<close> is a stream of draws \<open>rnd 0, rnd 1, ...\<close>, five
  for every bar, in the order of the calls, and the clock a stream of readings
  \<open>clk 0, clk 1, ...\<close>, one for every bar. The prices are finite and no division is
  made, so the loop computes on reals. \<open>step_price\<close> is the move of the base price an
  iteration starts with, \<open>mock_bar\<close> the bar it pushes, and \<open>n\<close> counts the iterations
  made so far.
\<close>

definition step_price :: "real \<Rightarrow> real \<Rightarrow> real" where
  "step_price basePrice r =
     (let volatility = 2 / 100;
          change = basePrice * volatility * (r - 1 / 2);
          moved = basePrice + change
      in if moved < 1 then 1 else moved)"

definition mock_bar :: "int \<Rightarrow> real \<Rightarrow> real \<Rightarrow> real \<Rightarrow> real \<Rightarrow> real \<Rightarrow> int bar" where
  "mock_bar day basePrice r_high r_low r_close r_volume =
     (let open_v = basePrice;
          high_v = open_v * (1 + r_high * (15 / 1000));
          low_v = open_v * (1 - r_low * (15 / 1000));
          close_v = low_v + r_close * (high_v - low_v);
          volume_v = of_int \<lfloor>r_volume * 10000000\<rfloor> + 500000
      in \<lparr>date = day,
          open_px = fixed 2 (Num open_v),
          high = fixed 2 (Num high_v),
          low = fixed 2 (Num low_v),
          close = fixed 2 (Num close_v),
          volume = Num volume_v\<rparr>)"

fun mock_bars ::
  "(nat \<Rightarrow> real) \<Rightarrow> (nat \<Rightarrow> int) \<Rightarrow> (int \<Rightarrow> bool \<Rightarrow> int) \<Rightarrow> real \<Rightarrow> nat \<Rightarrow> nat list
     \<Rightarrow> int bar list" where
  "mock_bars rnd clk LocalTZA basePrice n [] = []"
| "mock_bars rnd clk LocalTZA basePrice n (i # rest) =
     (let basePrice' = step_price basePrice (rnd (5 * n))
      in mock_bar (iso_day LocalTZA (clk n) i) basePrice'
           (rnd (5 * n + 1)) (rnd (5 * n + 2)) (rnd (5 * n + 3)) (rnd (5 * n + 4))
         # mock_bars rnd clk LocalTZA basePrice' (n + 1) rest)"

definition getMockStockData ::
  "(nat \<Rightarrow> real) \<Rightarrow> (nat \<Rightarrow> int) \<Rightarrow> (int \<Rightarrow> bool \<Rightarrow> int) \<Rightarrow> string \<Rightarrow> string
     \<Rightarrow> int bar list" where
  "getMockStockData rnd clk LocalTZA symbol timeRange =
     (let numDays = getNumDaysFromTimeRange timeRange
      in mock_bars rnd clk LocalTZA (real (getBasePrice symbol)) 0 (rev [0..<numDays + 1]))"


subsection \<open>Fetching a series\<close>

text \<open>
  What the process is configured with and what the outside answers: the two switches,
  the outcome of \<open>yahooFinance.historical\<close> and of \<open>getAlphaVantageData\<close> for a symbol
  and a range (\<open>Inl\<close> is a thrown error), and the time zone of the process: the offset
  of local time from UTC at a time that is read as UTC (\<open>True\<close>) or as local time.
\<close>

record yahoo_item =
  y_date :: int
  y_open :: "jsnum option"
  y_high :: "jsnum option"
  y_low :: "jsnum option"
  y_close :: "jsnum option"
  y_volume :: "jsnum option"

record env =
  USE_LIVE_DATA :: bool
  ALPHA_VANTAGE_API_KEY :: "string option"
  historical :: "string \<Rightarrow> string \<Rightarrow> error + yahoo_item list"
  getAlphaVantageData :: "string \<Rightarrow> string \<Rightarrow> error + int bar list"
  LocalTZA :: "int \<Rightarrow> bool \<Rightarrow> int"

text \<open>
  What changes during a call: the entries the cache holds (with the time to live each
  was stored with), the draws \<open>Math.random\<close> has still to give and the readings the
  clock has still to give. The keys of series and of indicator results start
  differently, so the one cache is two typed maps.
\<close>

record state =
  series_store :: "string \<rightharpoonup> int bar list \<times> nat"
  points_store :: "string \<rightharpoonup> int point list \<times> nat"
  random :: "nat \<Rightarrow> real"
  clock :: "nat \<Rightarrow> int"

definition key_set :: "string option \<Rightarrow> bool" where
  "key_set key = (case key of None \<Rightarrow> False | Some s \<Rightarrow> s \<noteq> [])"

text \<open>\<open>parseFloat(x?.toFixed(2) || 0)\<close> and \<open>x || 0\<close> on a field that may be missing.\<close>

definition fixed_or_zero :: "jsnum option \<Rightarrow> jsnum" where
  "fixed_or_zero v = (case v of None \<Rightarrow> Num 0 | Some x \<Rightarrow> fixed 2 x)"

definition or_zero :: "jsnum option \<Rightarrow> jsnum" where
  "or_zero v = (case v of None \<Rightarrow> Num 0 | Some x \<Rightarrow> if truthy x then x else Num 0)"

definition getYahooFinanceData :: "env \<Rightarrow> string \<Rightarrow> string \<Rightarrow> error + int bar list" where
  "getYahooFinanceData e symbol timeRange =
     (case historical e symbol timeRange of
        Inl err \<Rightarrow> Inl err
      | Inr result \<Rightarrow>
          if result = [] then Inl (Error (''No data found for symbol '' @ symbol))
          else Inr (rev (map (\<lambda>item.
                 \<lparr>date = y_date item,
                  open_px = fixed_or_zero (y_open item),
                  high = fixed_or_zero (y_high item),
                  low = fixed_or_zero (y_low item),
                  close = fixed_or_zero (y_close item),
                  volume = or_zero (y_volume item)\<rparr>) result)))"

text \<open>The synthetic series of a call, and the state after its draws and clock readings.\<close>

definition mock_series :: "env \<Rightarrow> state \<Rightarrow> string \<Rightarrow> string \<Rightarrow> int bar list \<times> state" where
  "mock_series e s symbol timeRange =
     (let stockData = getMockStockData (random s) (clock s) (LocalTZA e) symbol timeRange
      in (stockData,
          s\<lparr>random := (\<lambda>n. random s (n + 5 * length stockData)),
            clock := (\<lambda>n. clock s (n + length stockData))\<rparr>))"

text \<open>
  \<open>getStockData\<close>: a cached series is returned as it is; otherwise the providers are
  tried in turn, the result is stored and returned. What a provider throws is an \<open>Error\<close>
  object and is caught where the next provider is tried; no other step of the body
  throws, so the handler around the whole body, which would turn any error into
  \<open>Failed to fetch stock data\<close>, has no branch here and the result is always \<open>Inr\<close>.
\<close>

definition getStockData ::
  "env \<Rightarrow> state \<Rightarrow> string \<Rightarrow> string \<Rightarrow> (error + int bar list) \<times> state" where
  "getStockData e s symbol timeRange =
     (let cacheKey = ''stock_'' @ symbol @ ''_'' @ timeRange
      in case series_store s cacheKey of
           Some (cachedData, ttl) \<Rightarrow> (Inr cachedData, s)
         | None \<Rightarrow>
             (let (stockData, s1) =
                    (if USE_LIVE_DATA e then
                       (case getYahooFinanceData e symbol timeRange of
                          Inr live \<Rightarrow> (live, s)
                        | Inl yError \<Rightarrow>
                            if key_set (ALPHA_VANTAGE_API_KEY e) then
                              (case getAlphaVantageData e symbol timeRange of
                                 Inr live \<Rightarrow> (live, s)
                               | Inl aError \<Rightarrow> mock_series e s symbol timeRange)
                            else mock_series e s symbol timeRange)
                     else mock_series e s symbol timeRange);
                  cacheTime = (if USE_LIVE_DATA e then 60 else 300)
              in (Inr stockData,
                  s1\<lparr>series_store := (series_store s1)(cacheKey \<mapsto> (stockData, cacheTime))\<rparr>)))"



subsection \<open>Sample inputs\<close>

text \<open>A bar whose four prices are the same number, and records whose latest values are \<open>0\<close>.\<close>

definition bar_of :: "int \<Rightarrow> real \<Rightarrow> int bar" where
  "bar_of dt c =
     \<lparr>date = dt, open_px = Num c, high = Num c, low = Num c, close = Num c, volume = Num 0\<rparr>"

definition zero_inds :: "int indicators" where
  "zero_inds =
     \<lparr>sma20 = [ValuePoint 1 (Some (Num 0)) (Num 10)],
      sma50 = [ValuePoint 1 (Some (Num 0)) (Num 10)],
      ema12 = [], ema26 = [],
      rsi = [ValuePoint 1 (Some (Num 0)) (Num 10)],
      macd = [MacdPoint 1 (Some (Num 0)) (Some (Num 1)) (Some (Num (- 1)))],
      bb = [BollingerPoint 1 (Some (Num 0)) (Some (Num 0)) (Some (Num 0)) (Num 10)]\<rparr>"

text \<open>
  A stream of draws that are all \<open>1/2\<close>, a clock that reads the epoch at every reading,
  the time zone UTC, a configuration whose primary provider throws and which has no key
  for the secondary one, and a state with an empty cache.
\<close>

definition half :: "nat \<Rightarrow> real" where
  "half n = 1 / 2"

definition epoch :: "nat \<Rightarrow> int" where
  "epoch n = 0"

definition utc_zone :: "int \<Rightarrow> bool \<Rightarrow> int" where
  "utc_zone t isUTC = 0"

definition down_env :: env where
  "down_env =
     \<lparr>USE_LIVE_DATA = True, ALPHA_VANTAGE_API_KEY = None,
      historical = (\<lambda>symbol timeRange. Inl (Error ''network down'')),
      getAlphaVantageData = (\<lambda>symbol timeRange. Inl (Error ''Alpha Vantage API key not configured'')),
      LocalTZA = utc_zone\<rparr>"

definition fresh_state :: state where
  "fresh_state =
     \<lparr>series_store = Map.empty, points_store = Map.empty, random = half, clock = epoch\<rparr>"

text \<open>
  The number of the rule a signal comes from, read off its name: the moving averages are
  rule 1, the RSI rule 2, the MACD rule 3 and the bands rule 4.
\<close>

definition rule_no :: "trading_signal \<Rightarrow> nat" where
  "rule_no sg =
     (if s_signal sg = ''Golden Cross Pattern'' \<or> s_signal sg = ''Death Cross Pattern'' then 1
      else if s_signal sg = ''RSI Overbought'' \<or> s_signal sg = ''RSI Oversold'' then 2
      else if s_signal sg = ''MACD Bullish'' \<or> s_signal sg = ''MACD Bearish'' then 3
      else 4)"

text \<open>
  Indicator records whose latest moving averages and RSI are given numbers, with no
  MACD and no band records.
\<close>

definition value_points :: "real \<Rightarrow> int point list" where
  "value_points v = [ValuePoint 1 (Some (Num v)) (Num 100)]"

definition cross_inds :: "real \<Rightarrow> real \<Rightarrow> real \<Rightarrow> int indicators" where
  "cross_inds a b r =
     \<lparr>sma20 = value_points a, sma50 = value_points b, ema12 = [], ema26 = [],
      rsi = value_points r, macd = [], bb = []\<rparr>"

text \<open>A series of \<open>n\<close> equal bars, dated \<open>1\<close> to \<open>n\<close>.\<close>

definition flat_bars :: "nat \<Rightarrow> real \<Rightarrow> int bar list" where
  "flat_bars n c = map (\<lambda>i. bar_of (int i + 1) c) [0..<n]"

text \<open>
  Two ranges of numbers: the numbers that are not below \<open>0\<close>, \<open>Infinity\<close> and \<open>NaN\<close>
  among them, and the numbers from \<open>0\<close> to \<open>100\<close> together with \<open>NaN\<close>.
\<close>

definition nonneg :: "jsnum \<Rightarrow> bool" where
  "nonneg x = (case x of Num r \<Rightarrow> 0 \<le> r | PosInf \<Rightarrow> True | NegInf \<Rightarrow> False | NaN \<Rightarrow> True)"

definition percent :: "jsnum \<Rightarrow> bool" where
  "percent x = (case x of Num r \<Rightarrow> 0 \<le> r \<and> r \<le> 100 | PosInf \<Rightarrow> False | NegInf \<Rightarrow> False
                | NaN \<Rightarrow> True)"

text \<open>A series of \<open>n\<close> bars, dated \<open>1\<close> to \<open>n\<close>, whose prices alternate between 1 and 2.\<close>

definition zigzag_bars :: "nat \<Rightarrow> int bar list" where
  "zigzag_bars n = map (\<lambda>i. bar_of (int i + 1) (if even i then 1 else 2)) [0..<n]"

text \<open>The finite numbers above \<open>0\<close>.\<close>

definition positive :: "jsnum \<Rightarrow> bool" where
  "positive x = (case x of Num r \<Rightarrow> 0 < r | PosInf \<Rightarrow> False | NegInf \<Rightarrow> False | NaN \<Rightarrow> False)"

text \<open>Five bars, dated 1 to 5, whose prices are 1, 2, 3, 4 and 5.\<close>

definition ramp_bars :: "int bar list" where
  "ramp_bars = map (\<lambda>i. bar_of (int i) (real i)) [1..<6]"

text \<open>
  The time zone of New York around its change to daylight saving time on 8 March 2026:
  five hours behind UTC before 07:00 UTC of that day and four hours behind from then on;
  a local time before 03:00 of that day has the offset of five hours (the skipped hour
  from 02:00 takes the offset from before the change), a later one that of four hours.
  And a clock that reads 23:30 UTC of 20 March 2026, which is 19:30 there, at every
  reading.
\<close>

definition new_york :: "int \<Rightarrow> bool \<Rightarrow> int" where
  "new_york t isUTC =
     (if isUTC then (if t < 1772953200000 then - 18000000 else - 14400000)
      else (if t < 1772938800000 then - 18000000 else - 14400000))"

definition evening :: "nat \<Rightarrow> int" where
  "evening n = 1774049400000"

section \<open>Properties\<close>

subsection \<open>Lengths and dates of the per-date records\<close>

lemma length_SMA: "length (SMA p xs) = nat (int (length xs) - int p + 1)"
  by (simp add: SMA_def)

lemma length_mapIndicatorToData:
  "length (mapIndicatorToData bars vals p) = length bars"
  by (simp add: mapIndicatorToData_def)








subsection \<open>A value of zero reads as no value\<close>

text \<open>
  Claim C9. In \<open>mapIndicatorToData\<close> a date whose indicator value is exactly \<open>0\<close> gets
  the value \<open>null\<close>, as a date of the warm-up does. In \<open>generateTradingSignals\<close> a latest
  value of exactly \<open>0\<close> makes the rule that tests it push nothing: the signals are those
  of the same call with no record at all for that indicator. This holds for the two
  moving averages, the RSI, the \<open>macd\<close> and \<open>signal\<close> fields and the two bands.
\<close>

theorem zero_is_absent:
  "(\<forall>i. i < length bars \<and> num_at vals (int i - (int p - 1)) = Num 0
        \<longrightarrow> value_of (mapIndicatorToData bars vals p ! i) = None)
   \<and> (latest_value (sma20 inds) = Some (Num 0)
        \<longrightarrow> generateTradingSignals bars inds = generateTradingSignals bars (inds\<lparr>sma20 := []\<rparr>))
   \<and> (latest_value (sma50 inds) = Some (Num 0)
        \<longrightarrow> generateTradingSignals bars inds = generateTradingSignals bars (inds\<lparr>sma50 := []\<rparr>))
   \<and> (latest_value (rsi inds) = Some (Num 0)
        \<longrightarrow> generateTradingSignals bars inds = generateTradingSignals bars (inds\<lparr>rsi := []\<rparr>))
   \<and> ((\<exists>pt. latest (macd inds) = Some pt \<and> (macd_of pt = Some (Num 0) \<or> signal_of pt = Some (Num 0)))
        \<longrightarrow> generateTradingSignals bars inds = generateTradingSignals bars (inds\<lparr>macd := []\<rparr>))
   \<and> ((\<exists>pt. latest (bb inds) = Some pt \<and> (upper_of pt = Some (Num 0) \<or> lower_of pt = Some (Num 0)))
        \<longrightarrow> generateTradingSignals bars inds = generateTradingSignals bars (inds\<lparr>bb := []\<rparr>))"
proof (intro conjI allI impI)
  fix i
  assume "i < length bars \<and> num_at vals (int i - (int p - 1)) = Num 0"
  then show "value_of (mapIndicatorToData bars vals p ! i) = None"
    by (simp add: mapIndicatorToData_def Let_def)
next
  assume "latest_value (sma20 inds) = Some (Num 0)"
  then show "generateTradingSignals bars inds = generateTradingSignals bars (inds\<lparr>sma20 := []\<rparr>)"
    by (simp add: generateTradingSignals_def Let_def ma_rule_def present_def latest_value_def latest_def)
next
  assume "latest_value (sma50 inds) = Some (Num 0)"
  then show "generateTradingSignals bars inds = generateTradingSignals bars (inds\<lparr>sma50 := []\<rparr>)"
    by (simp add: generateTradingSignals_def Let_def ma_rule_def present_def latest_value_def latest_def)
next
  assume "latest_value (rsi inds) = Some (Num 0)"
  then show "generateTradingSignals bars inds = generateTradingSignals bars (inds\<lparr>rsi := []\<rparr>)"
    by (simp add: generateTradingSignals_def Let_def rsi_rule_def present_def latest_value_def latest_def)
next
  assume "\<exists>pt. latest (macd inds) = Some pt \<and> (macd_of pt = Some (Num 0) \<or> signal_of pt = Some (Num 0))"
  then show "generateTradingSignals bars inds = generateTradingSignals bars (inds\<lparr>macd := []\<rparr>)"
    by (auto simp add: generateTradingSignals_def Let_def macd_rule_def present_def latest_def)
next
  assume "\<exists>pt. latest (bb inds) = Some pt \<and> (upper_of pt = Some (Num 0) \<or> lower_of pt = Some (Num 0))"
  then show "generateTradingSignals bars inds = generateTradingSignals bars (inds\<lparr>bb := []\<rparr>)"
    by (auto simp add: generateTradingSignals_def Let_def bb_rule_def present_def latest_def)
qed

theorem zero_is_absent_witness:
  "num_at [Num 0] (int 0 - (int 1 - 1)) = Num 0
   \<and> value_of (mapIndicatorToData [bar_of 1 10] [Num 0] 1 ! 0) = None
   \<and> latest_value (sma20 zero_inds) = Some (Num 0)
   \<and> generateTradingSignals [bar_of 1 10] zero_inds
       = generateTradingSignals [bar_of 1 10] (zero_inds\<lparr>sma20 := []\<rparr>)
   \<and> latest_value (sma50 zero_inds) = Some (Num 0)
   \<and> generateTradingSignals [bar_of 1 10] zero_inds
       = generateTradingSignals [bar_of 1 10] (zero_inds\<lparr>sma50 := []\<rparr>)
   \<and> latest_value (rsi zero_inds) = Some (Num 0)
   \<and> generateTradingSignals [bar_of 1 10] zero_inds
       = generateTradingSignals [bar_of 1 10] (zero_inds\<lparr>rsi := []\<rparr>)
   \<and> macd_of (last (macd zero_inds)) = Some (Num 0)
   \<and> generateTradingSignals [bar_of 1 10] zero_inds
       = generateTradingSignals [bar_of 1 10] (zero_inds\<lparr>macd := []\<rparr>)
   \<and> upper_of (last (bb zero_inds)) = Some (Num 0)
   \<and> generateTradingSignals [bar_of 1 10] zero_inds
       = generateTradingSignals [bar_of 1 10] (zero_inds\<lparr>bb := []\<rparr>)"
proof -
  have a: "num_at [Num 0] (int 0 - (int 1 - 1)) = Num 0"
    by (simp add: num_at_def at_opt_def to_num_def)
  have b: "latest_value (sma20 zero_inds) = Some (Num 0)"
    "latest_value (sma50 zero_inds) = Some (Num 0)"
    "latest_value (rsi zero_inds) = Some (Num 0)"
    by (simp_all add: zero_inds_def latest_value_def latest_def)
  have c: "latest (macd zero_inds) = Some (last (macd zero_inds))"
    "macd_of (last (macd zero_inds)) = Some (Num 0)"
    "latest (bb zero_inds) = Some (last (bb zero_inds))"
    "upper_of (last (bb zero_inds)) = Some (Num 0)"
    by (simp_all add: zero_inds_def latest_def)
  note t = zero_is_absent [of "[bar_of 1 10]" "[Num 0]" 1 zero_inds]
  from t a have v: "value_of (mapIndicatorToData [bar_of 1 10] [Num 0] 1 ! 0) = None"
    by simp
  from t b c have g:
    "generateTradingSignals [bar_of 1 10] zero_inds
       = generateTradingSignals [bar_of 1 10] (zero_inds\<lparr>sma20 := []\<rparr>)"
    "generateTradingSignals [bar_of 1 10] zero_inds
       = generateTradingSignals [bar_of 1 10] (zero_inds\<lparr>sma50 := []\<rparr>)"
    "generateTradingSignals [bar_of 1 10] zero_inds
       = generateTradingSignals [bar_of 1 10] (zero_inds\<lparr>rsi := []\<rparr>)"
    "generateTradingSignals [bar_of 1 10] zero_inds
       = generateTradingSignals [bar_of 1 10] (zero_inds\<lparr>macd := []\<rparr>)"
    "generateTradingSignals [bar_of 1 10] zero_inds
       = generateTradingSignals [bar_of 1 10] (zero_inds\<lparr>bb := []\<rparr>)"
    by blast+
  show ?thesis
    by (intro conjI) (fact a v b c g)+
qed

subsection \<open>The synthetic series\<close>

lemma length_mock_bars: "length (mock_bars rnd clk tz bp n days) = length days"
  by (induction days arbitrary: bp n) (simp_all add: Let_def)

lemma dates_mock_bars:
  "j < length days \<Longrightarrow>
     date (mock_bars rnd clk tz bp n days ! j) = iso_day tz (clk (n + j)) (days ! j)"
proof (induction days arbitrary: bp n j)
  case Nil
  then show ?case by simp
next
  case (Cons i rest)
  show ?case
  proof (cases j)
    case 0
    then show ?thesis by (simp add: Let_def mock_bar_def)
  next
    case (Suc m)
    with Cons.prems have "m < length rest" by simp
    from Cons.IH [OF this, of "step_price bp (rnd (5 * n))" "n + 1"] Suc
    show ?thesis by (simp add: Let_def)
  qed
qed

lemma round_fixed_pos:
  assumes "985 / 1000 \<le> a"
  shows "0 < round_fixed 2 a"
proof (cases "10 ^ 21 \<le> \<bar>a\<bar>")
  case True
  with assms show ?thesis by (simp add: round_fixed_def)
next
  case False
  have "(99::real) \<le> a * 10 ^ 2 + 1 / 2" using assms by simp
  then have "(99::int) \<le> \<lfloor>a * 10 ^ 2 + 1 / 2\<rfloor>" by (simp add: le_floor_iff)
  then have "(0::real) < of_int \<lfloor>a * 10 ^ 2 + 1 / 2\<rfloor>" by simp
  with False assms show ?thesis by (simp add: round_fixed_def)
qed

lemma step_price_ge: "1 \<le> step_price bp r"
  by (simp add: step_price_def Let_def)

lemma mock_close_bound:
  fixes b r1 r2 r3 :: real
  assumes "1 \<le> b" "0 \<le> r1" "0 \<le> r2" "r2 < 1" "0 \<le> r3"
  shows "985 / 1000 \<le> b * (1 - r2 * (15 / 1000)) + r3 * (b * (1 + r1 * (15 / 1000)) - b * (1 - r2 * (15 / 1000)))"
proof -
  have lo: "985 / 1000 \<le> b * (1 - r2 * (15 / 1000))"
  proof -
    have "985 / 1000 \<le> 1 - r2 * (15 / 1000)" using assms by simp
    moreover have "0 \<le> 1 - r2 * (15 / 1000)" using assms by simp
    ultimately have "985 / 1000 * 1 \<le> (1 - r2 * (15 / 1000)) * b"
      using assms(1) by (intro mult_mono) simp_all
    then show ?thesis by (simp add: mult.commute)
  qed
  have "b * (1 + r1 * (15 / 1000)) - b * (1 - r2 * (15 / 1000)) = b * ((r1 + r2) * (15 / 1000))"
    by (simp add: algebra_simps)
  moreover have "0 \<le> b * ((r1 + r2) * (15 / 1000))" using assms by simp
  ultimately have "0 \<le> r3 * (b * (1 + r1 * (15 / 1000)) - b * (1 - r2 * (15 / 1000)))"
    using assms(5) by simp
  with lo show ?thesis by linarith
qed

lemma close_mock_bar:
  assumes "1 \<le> b" "0 \<le> r1" "0 \<le> r2" "r2 < 1" "0 \<le> r3"
  shows "\<exists>c. close (mock_bar day b r1 r2 r3 r4) = Num c \<and> 0 < c"
  using round_fixed_pos [OF mock_close_bound [OF assms]]
  by (simp add: mock_bar_def Let_def)

lemma closes_mock_bars:
  assumes "\<forall>n. 0 \<le> rnd n \<and> rnd n < 1"
  shows "\<forall>b \<in> set (mock_bars rnd clk tz bp n days). \<exists>c. close b = Num c \<and> 0 < c"
proof (induction days arbitrary: bp n)
  case Nil
  show ?case by simp
next
  case (Cons i rest)
  have "\<exists>c. close (mock_bar (iso_day tz (clk n) i) (step_price bp (rnd (5 * n)))
                 (rnd (5 * n + 1)) (rnd (5 * n + 2)) (rnd (5 * n + 3)) (rnd (5 * n + 4)))
               = Num c \<and> 0 < c"
    using assms by (intro close_mock_bar step_price_ge) simp_all
  then show ?case using Cons.IH [of "step_price bp (rnd (5 * n))" "n + 1"]
    by (simp add: Let_def)
qed

lemma length_getMockStockData:
  "length (getMockStockData rnd clk tz symbol timeRange) = getNumDaysFromTimeRange timeRange + 1"
  unfolding getMockStockData_def Let_def length_mock_bars by simp

lemma numDays_1m: "getNumDaysFromTimeRange ''1m'' = 30"
  by (simp add: getNumDaysFromTimeRange_def)

lemma date_getMockStockData:
  assumes "j < length (getMockStockData rnd clk tz symbol timeRange)"
  shows "date (getMockStockData rnd clk tz symbol timeRange ! j)
           = iso_day tz (clk j) (getNumDaysFromTimeRange timeRange - j)"
proof -
  let ?n = "getNumDaysFromTimeRange timeRange"
  have j: "j < length (rev [0..<?n + 1])" using assms by (simp add: length_getMockStockData)
  then have "rev [0..<?n + 1] ! j = ?n - j"
    by (simp add: rev_nth del: upt_Suc)
  with dates_mock_bars [OF j, of rnd clk tz "real (getBasePrice symbol)" 0]
  show ?thesis by (simp add: getMockStockData_def Let_def del: upt_Suc)
qed

lemma iso_day_constant:
  assumes "\<forall>t isUTC. tz t isUTC = c"
  shows "iso_day tz t i = t div msPerDay - int i"
proof -
  have "iso_day tz t i = (t + (- int i) * msPerDay) div msPerDay"
    using assms by (simp add: iso_day_def Let_def)
  also have "\<dots> = - int i + t div msPerDay"
    by (rule div_mult_self1) (simp add: msPerDay_def)
  finally show ?thesis by simp
qed

text \<open>
  The shape of the synthetic series. With draws in \<open>[0, 1)\<close>, \<open>getMockStockData\<close> for
  the range \<open>1m\<close> gives 31 bars for every symbol, every close is a number greater than
  \<open>0\<close>, and any other call for the range, whatever it draws, whenever and wherever it
  is made, gives a series of the same length. When the offset of the time zone from UTC
  never changes and all readings of the clock during the call fall on one UTC day, the
  date of every bar is the day after the date of the bar before it.
\<close>

theorem getMockStockData_shape:
  assumes "\<forall>n. 0 \<le> rnd n \<and> rnd n < 1"
  shows "length (getMockStockData rnd clk tz symbol ''1m'') = 31
     \<and> (\<forall>b \<in> set (getMockStockData rnd clk tz symbol ''1m''). \<exists>c. close b = Num c \<and> 0 < c)
     \<and> length (getMockStockData rnd' clk' tz' symbol ''1m'')
         = length (getMockStockData rnd clk tz symbol ''1m'')
     \<and> ((\<forall>t isUTC. tz t isUTC = c) \<and> (\<forall>n. clk n div msPerDay = day)
          \<longrightarrow> (\<forall>i. Suc i < 31 \<longrightarrow>
                 date (getMockStockData rnd clk tz symbol ''1m'' ! Suc i)
                   = date (getMockStockData rnd clk tz symbol ''1m'' ! i) + 1))"
proof -
  have len: "length (getMockStockData r k z symbol ''1m'') = 31" for r k z
    by (simp add: length_getMockStockData numDays_1m)
  have cl: "\<forall>b \<in> set (getMockStockData rnd clk tz symbol ''1m''). \<exists>c. close b = Num c \<and> 0 < c"
    unfolding getMockStockData_def Let_def by (rule closes_mock_bars [OF assms])
  have dt: "date (getMockStockData rnd clk tz symbol ''1m'' ! Suc i)
              = date (getMockStockData rnd clk tz symbol ''1m'' ! i) + 1"
    if z: "\<forall>t isUTC. tz t isUTC = c" and k: "\<forall>n. clk n div msPerDay = day" and i: "Suc i < 31"
    for i
    using i k by (simp add: date_getMockStockData len iso_day_constant [OF z] numDays_1m)
  show ?thesis using len cl dt by simp
qed

theorem getMockStockData_shape_witness:
  "(\<forall>n. 0 \<le> half n \<and> half n < 1)
   \<and> (\<forall>t isUTC. utc_zone t isUTC = 0) \<and> (\<forall>n. epoch n div msPerDay = 0)
   \<and> length (getMockStockData half epoch utc_zone ''AAPL'' ''1m'') = 31
   \<and> (\<exists>c. close (getMockStockData half epoch utc_zone ''AAPL'' ''1m'' ! 0) = Num c \<and> 0 < c)
   \<and> date (getMockStockData half epoch utc_zone ''AAPL'' ''1m'' ! 1)
       = date (getMockStockData half epoch utc_zone ''AAPL'' ''1m'' ! 0) + 1"
proof -
  let ?s = "getMockStockData half epoch utc_zone ''AAPL'' ''1m''"
  have h: "\<forall>n. 0 \<le> half n \<and> half n < 1" by (simp add: half_def)
  have z: "\<forall>t isUTC. utc_zone t isUTC = 0" by (simp add: utc_zone_def)
  have k: "\<forall>n. epoch n div msPerDay = 0" by (simp add: epoch_def)
  note t = getMockStockData_shape [OF h, of epoch utc_zone "''AAPL''" half epoch utc_zone 0 0]
  from t have l: "length ?s = 31" by blast
  then have "?s ! 0 \<in> set ?s" by simp
  with t have c: "\<exists>c. close (?s ! 0) = Num c \<and> 0 < c" by blast
  from t z k have "\<forall>i. Suc i < 31 \<longrightarrow> date (?s ! Suc i) = date (?s ! i) + 1" by blast
  then have d: "date (?s ! 1) = date (?s ! 0) + 1" by simp
  show ?thesis
    by (intro conjI) (fact h z k l c d)+
qed

text \<open>
  Claim C8 fails on the code. The date of a bar is the UTC day of a time that was moved
  back in local time, so where the offset of the time zone changes within the range a
  date comes twice or is left out. In New York at 19:30 of 20 March 2026 the call for
  \<open>AAPL\<close> and the range \<open>1m\<close> gives 31 bars of which the 18th and the 19th both have the
  date 8 March 2026, the day 20520 after 1 January 1970: 12 days before the call it is
  19:30 of 8 March there, which is 23:30 UTC of 8 March, and 13 days before it is 19:30
  of 7 March, which is 00:30 UTC of 8 March.
\<close>

theorem getMockStockData_dates_repeat:
  "length (getMockStockData half evening new_york ''AAPL'' ''1m'') = 31
   \<and> date (getMockStockData half evening new_york ''AAPL'' ''1m'' ! 17) = 20520
   \<and> date (getMockStockData half evening new_york ''AAPL'' ''1m'' ! 18) = 20520"
proof -
  have l: "length (getMockStockData half evening new_york ''AAPL'' ''1m'') = 31"
    by (simp add: length_getMockStockData numDays_1m)
  have a: "iso_day new_york 1774049400000 13 = 20520"
    by (simp add: iso_day_def new_york_def msPerDay_def)
  have b: "iso_day new_york 1774049400000 12 = 20520"
    by (simp add: iso_day_def new_york_def msPerDay_def)
  from l a b show ?thesis
    by (simp add: date_getMockStockData numDays_1m evening_def)
qed

subsection \<open>Falling back to the synthetic series\<close>

lemma getStockData_mock:
  assumes "series_store s (''stock_'' @ symbol @ ''_'' @ timeRange) = None"
    and "USE_LIVE_DATA e \<longrightarrow>
           (\<exists>yError. getYahooFinanceData e symbol timeRange = Inl yError)
           \<and> \<not> key_set (ALPHA_VANTAGE_API_KEY e)"
  shows "fst (getStockData e s symbol timeRange)
           = Inr (getMockStockData (random s) (clock s) (LocalTZA e) symbol timeRange)"
    and "random (snd (getStockData e s symbol timeRange))
           = (\<lambda>n. random s (n + 5 * (getNumDaysFromTimeRange timeRange + 1)))"
    and "points_store (snd (getStockData e s symbol timeRange)) = points_store s"
  using assms
  by (auto simp add: getStockData_def mock_series_def Let_def length_getMockStockData
      split: sum.splits)

lemma getStockData_returns:
  "\<exists>series. fst (getStockData e s symbol timeRange) = Inr series"
  by (auto simp add: getStockData_def mock_series_def Let_def
      split: option.splits sum.splits prod.splits)

text \<open>
  Claim C2. The primary provider is asked only after the cache had no entry for the
  series and when live data is on. If it then throws (or answers with no rows, which
  \<open>getYahooFinanceData\<close> turns into an error) and no key of the secondary provider is
  set, \<open>getStockData\<close> for the range \<open>1m\<close> returns, for every symbol, the series of
  \<open>getMockStockData\<close>, which has 31 bars; it returns no error. Whatever the providers
  do, for every configuration, cache, symbol and range the call returns a series.
\<close>

theorem getStockData_falls_back:
  assumes "series_store s (''stock_'' @ symbol @ ''_'' @ ''1m'') = None"
    and "USE_LIVE_DATA e"
    and "getYahooFinanceData e symbol ''1m'' = Inl yError"
    and "\<not> key_set (ALPHA_VANTAGE_API_KEY e)"
  shows "fst (getStockData e s symbol ''1m'')
           = Inr (getMockStockData (random s) (clock s) (LocalTZA e) symbol ''1m'')
         \<and> length (getMockStockData (random s) (clock s) (LocalTZA e) symbol ''1m'') = 31
         \<and> (\<exists>series. fst (getStockData e' s' symbol' timeRange') = Inr series)"
  using assms getStockData_returns [of e' s' symbol' timeRange']
  by (simp add: getStockData_mock(1) length_getMockStockData numDays_1m)

theorem getStockData_falls_back_witness:
  "series_store fresh_state (''stock_'' @ ''X'' @ ''_'' @ ''1m'') = None
   \<and> USE_LIVE_DATA down_env
   \<and> getYahooFinanceData down_env ''X'' ''1m'' = Inl (Error ''network down'')
   \<and> \<not> key_set (ALPHA_VANTAGE_API_KEY down_env)
   \<and> fst (getStockData down_env fresh_state ''X'' ''1m'')
        = Inr (getMockStockData half epoch utc_zone ''X'' ''1m'')
   \<and> length (getMockStockData half epoch utc_zone ''X'' ''1m'') = 31"
proof -
  have h: "series_store fresh_state (''stock_'' @ ''X'' @ ''_'' @ ''1m'') = None"
    "USE_LIVE_DATA down_env"
    "getYahooFinanceData down_env ''X'' ''1m'' = Inl (Error ''network down'')"
    "\<not> key_set (ALPHA_VANTAGE_API_KEY down_env)"
    by (simp_all add: fresh_state_def down_env_def getYahooFinanceData_def key_set_def)
  have r: "random fresh_state = half" "clock fresh_state = epoch" "LocalTZA down_env = utc_zone"
    by (simp_all add: fresh_state_def down_env_def)
  show ?thesis
    using h getStockData_falls_back [OF h] by (simp add: r)
qed

subsection \<open>Names of indicators that are not supported\<close>









subsection \<open>The signal rules\<close>

lemma ma_rule_no: "\<forall>sg \<in> set (ma_rule pr a b). rule_no sg = 1"
  by (simp add: ma_rule_def rule_no_def golden_cross_def death_cross_def)

lemma rsi_rule_no: "\<forall>sg \<in> set (rsi_rule r). rule_no sg = 2"
  by (simp add: rsi_rule_def rule_no_def rsi_overbought_def rsi_oversold_def)

lemma macd_rule_no: "\<forall>sg \<in> set (macd_rule m). rule_no sg = 3"
  by (auto simp add: macd_rule_def rule_no_def macd_bullish_def macd_bearish_def
      split: option.splits if_splits)

lemma bb_rule_no: "\<forall>sg \<in> set (bb_rule pr m). rule_no sg = 4"
  by (auto simp add: bb_rule_def rule_no_def bollinger_upper_def bollinger_lower_def
      split: option.splits if_splits)

lemma ma_rule_short: "length (ma_rule pr a b) \<le> 1"
  by (simp add: ma_rule_def)

lemma rsi_rule_short: "length (rsi_rule r) \<le> 1"
  by (simp add: rsi_rule_def)

lemma macd_rule_short: "length (macd_rule m) \<le> 1"
  by (simp add: macd_rule_def split: option.split)

lemma bb_rule_short: "length (bb_rule pr m) \<le> 1"
  by (simp add: bb_rule_def split: option.split)

lemma sorted_short: "length xs \<le> 1 \<Longrightarrow> sorted_wrt R xs"
  by (cases xs) (auto simp: Suc_le_eq)

lemma rules_in_order:
  "sorted_wrt (<) (map rule_no (ma_rule pr a b @ rsi_rule r @ macd_rule m @ bb_rule pr m'))"
proof -
  have s: "sorted_wrt R (ma_rule pr a b)" "sorted_wrt R (rsi_rule r)"
    "sorted_wrt R (macd_rule m)" "sorted_wrt R (bb_rule pr m')" for R
    by (rule sorted_short, rule ma_rule_short rsi_rule_short macd_rule_short bb_rule_short)+
  show ?thesis
    using ma_rule_no [of pr a b] rsi_rule_no [of r] macd_rule_no [of m] bb_rule_no [of pr m']
    by (auto simp add: sorted_wrt_append sorted_wrt_map s)
qed

text \<open>
  Claim C4, as the code has it. For a series that is not empty the generator returns a
  list of signals. The list holds the Strong BUY signal \<open>Golden Cross Pattern\<close> whenever
  the latest price is above the latest SMA20 and that is above the latest SMA50, and both
  averages are truthy (neither is \<open>0\<close>). It holds the Medium SELL signal \<open>RSI Overbought\<close>
  whenever the latest RSI is above 70. The two rules do not depend on each other, so both
  signals are in the list when both conditions hold. The signals stand in the order of the
  rules: moving averages, RSI, MACD, bands.
\<close>

theorem signal_rules:
  assumes "bars \<noteq> []"
  shows "\<exists>sigs. generateTradingSignals bars inds = Inr sigs
     \<and> (\<forall>a b. latest_value (sma20 inds) = Some a \<and> latest_value (sma50 inds) = Some b
            \<and> truthy a \<and> truthy b \<and> jgt (close (last bars)) a \<and> jgt a b
          \<longrightarrow> golden_cross \<in> set sigs)
     \<and> (\<forall>r. latest_value (rsi inds) = Some r \<and> jgt r (Num 70)
          \<longrightarrow> rsi_overbought r \<in> set sigs)
     \<and> sorted_wrt (<) (map rule_no sigs)
     \<and> s_type golden_cross = BUY \<and> s_strength golden_cross = Strong
     \<and> rule_no golden_cross = 1
     \<and> (\<forall>r. s_type (rsi_overbought r) = SELL \<and> s_strength (rsi_overbought r) = Medium
            \<and> rule_no (rsi_overbought r) = 2)"
proof -
  let ?sigs = "ma_rule (close (last bars)) (latest_value (sma20 inds)) (latest_value (sma50 inds))
      @ rsi_rule (latest_value (rsi inds))
      @ macd_rule (latest (macd inds))
      @ bb_rule (close (last bars)) (latest (bb inds))"
  have g: "generateTradingSignals bars inds = Inr ?sigs"
    using assms by (simp add: generateTradingSignals_def Let_def)
  have ma: "golden_cross \<in> set ?sigs"
    if "latest_value (sma20 inds) = Some a \<and> latest_value (sma50 inds) = Some b
            \<and> truthy a \<and> truthy b \<and> jgt (close (last bars)) a \<and> jgt a b" for a b
    using that by (simp add: ma_rule_def present_def operand_def)
  have rs: "rsi_overbought r \<in> set ?sigs"
    if "latest_value (rsi inds) = Some r \<and> jgt r (Num 70)" for r
  proof -
    from that have "truthy r" by (cases r) (auto simp: jgt_def)
    with that show ?thesis by (simp add: rsi_rule_def present_def operand_def)
  qed
  have fields: "s_type golden_cross = BUY \<and> s_strength golden_cross = Strong
     \<and> rule_no golden_cross = 1
     \<and> (\<forall>r. s_type (rsi_overbought r) = SELL \<and> s_strength (rsi_overbought r) = Medium
            \<and> rule_no (rsi_overbought r) = 2)"
    by (simp add: golden_cross_def rsi_overbought_def rule_no_def)
  show ?thesis using g ma rs rules_in_order fields by blast
qed

theorem signal_rules_witness:
  "[bar_of 1 100] \<noteq> []
   \<and> latest_value (sma20 (cross_inds 95 90 75)) = Some (Num 95)
   \<and> latest_value (sma50 (cross_inds 95 90 75)) = Some (Num 90)
   \<and> truthy (Num 95) \<and> truthy (Num 90)
   \<and> jgt (close (last [bar_of 1 100])) (Num 95) \<and> jgt (Num 95) (Num 90)
   \<and> latest_value (rsi (cross_inds 95 90 75)) = Some (Num 75) \<and> jgt (Num 75) (Num 70)
   \<and> (\<exists>sigs. generateTradingSignals [bar_of 1 100] (cross_inds 95 90 75) = Inr sigs
         \<and> golden_cross \<in> set sigs \<and> rsi_overbought (Num 75) \<in> set sigs
         \<and> sorted_wrt (<) (map rule_no sigs))"
proof -
  have h: "[bar_of 1 100] \<noteq> []" by simp
  have v: "latest_value (sma20 (cross_inds 95 90 75)) = Some (Num 95)"
    "latest_value (sma50 (cross_inds 95 90 75)) = Some (Num 90)"
    "latest_value (rsi (cross_inds 95 90 75)) = Some (Num 75)"
    by (simp_all add: cross_inds_def value_points_def latest_value_def latest_def)
  have c: "truthy (Num 95)" "truthy (Num 90)"
    "jgt (close (last [bar_of 1 100])) (Num 95)" "jgt (Num 95) (Num 90)" "jgt (Num 75) (Num 70)"
    by (simp_all add: jgt_def bar_of_def)
  from signal_rules [OF h, of "cross_inds 95 90 75"] v c
  have "\<exists>sigs. generateTradingSignals [bar_of 1 100] (cross_inds 95 90 75) = Inr sigs
         \<and> golden_cross \<in> set sigs \<and> rsi_overbought (Num 75) \<in> set sigs
         \<and> sorted_wrt (<) (map rule_no sigs)"
    by blast
  with h v c show ?thesis by blast
qed

text \<open>
  The claim as stated fails when an average is \<open>0\<close>: with price 100, SMA20 95 and SMA50
  0 the price is above SMA20 and SMA20 above SMA50, and no signal is produced.
\<close>

theorem signal_rules_counterexample:
  "latest_value (sma20 (cross_inds 95 0 50)) = Some (Num 95)
   \<and> latest_value (sma50 (cross_inds 95 0 50)) = Some (Num 0)
   \<and> jgt (close (last [bar_of 1 100])) (Num 95) \<and> jgt (Num 95) (Num 0)
   \<and> generateTradingSignals [bar_of 1 100] (cross_inds 95 0 50) = Inr []"
  by (simp add: cross_inds_def value_points_def latest_value_def latest_def jgt_def bar_of_def
      generateTradingSignals_def Let_def ma_rule_def rsi_rule_def macd_rule_def bb_rule_def
      present_def operand_def)

subsection \<open>The MACD histogram\<close>

lemma floor_half: "\<bar>of_int \<lfloor>x + 1 / 2\<rfloor> - x\<bar> \<le> 1 / 2" for x :: real
  by linarith

lemma round_fixed_err: "\<bar>round_fixed d a - a\<bar> \<le> 1 / (2 * 10 ^ d)"
proof -
  have e: "\<bar>of_int \<lfloor>x * 10 ^ d + 1 / 2\<rfloor> / 10 ^ d - x\<bar> \<le> 1 / (2 * 10 ^ d)" for x :: real
  proof -
    have "of_int \<lfloor>x * 10 ^ d + 1 / 2\<rfloor> / 10 ^ d - x
            = (of_int \<lfloor>x * 10 ^ d + 1 / 2\<rfloor> - x * 10 ^ d) / 10 ^ d"
      by (simp add: field_simps)
    then have "\<bar>of_int \<lfloor>x * 10 ^ d + 1 / 2\<rfloor> / 10 ^ d - x\<bar>
            = \<bar>of_int \<lfloor>x * 10 ^ d + 1 / 2\<rfloor> - x * 10 ^ d\<bar> / 10 ^ d"
      by (simp add: abs_divide)
    also have "\<dots> \<le> (1 / 2) / 10 ^ d"
      by (intro divide_right_mono floor_half) simp
    finally show ?thesis by simp
  qed
  show ?thesis
  proof (cases "10 ^ 21 \<le> \<bar>a\<bar>")
    case True
    then show ?thesis by (simp add: round_fixed_def)
  next
    case big: False
    show ?thesis
    proof (cases "a < 0")
      case True
      have "\<bar>round_fixed d a - a\<bar> = \<bar>of_int \<lfloor>(- a) * 10 ^ d + 1 / 2\<rfloor> / 10 ^ d - (- a)\<bar>"
        using big True unfolding round_fixed_def by (simp only: if_False if_True)
      then show ?thesis using e [of "- a"] by simp
    next
      case False
      then show ?thesis using big e [of a] by (simp add: round_fixed_def)
    qed
  qed
qed

lemma fixed_Num: "fixed d x = Num r \<Longrightarrow> \<exists>r0. x = Num r0 \<and> r = round_fixed d r0"
  by (cases x) auto

lemma at_opt_mem: "at_opt xs i = Some e \<Longrightarrow> e \<in> set xs"
  by (auto simp: at_opt_def split: if_splits)

lemma MACD_calculate_histogram:
  "e \<in> set (MACD_calculate values fastPeriod slowPeriod signalPeriod)
     \<Longrightarrow> histogram e = jsub (to_num (MACD e)) (signal e)"
  by (auto simp: MACD_calculate_def Let_def)

lemma calc_macd:
  "toLowerCase indicator = ''macd'' \<Longrightarrow>
     calculateTechnicalIndicator bars indicator
       = Inr (map (macd_point (MACD_calculate (map close bars) 12 26 9) bars) [0..<length bars])"
  by (simp add: calculateTechnicalIndicator_def Let_def)

lemma macd_point_rounded:
  assumes "macd_point M bars i = MacdPoint dt (Some (Num m)) (Some (Num s)) (Some (Num h))"
  shows "\<exists>e m0 s0 h0. e \<in> set M \<and> MACD e = Some (Num m0) \<and> signal e = Num s0
           \<and> histogram e = Num h0 \<and> m = round_fixed 4 m0 \<and> s = round_fixed 4 s0
           \<and> h = round_fixed 4 h0"
proof (cases "at_opt M (int i - 25)")
  case None
  with assms show ?thesis by (simp add: macd_point_def)
next
  case (Some e)
  with assms have f: "(case MACD e of None \<Rightarrow> NaN | Some m \<Rightarrow> fixed 4 m) = Num m"
    "fixed 4 (signal e) = Num s" "fixed 4 (histogram e) = Num h"
    by (simp_all add: macd_point_def)
  from f(1) obtain x where x: "MACD e = Some x" "fixed 4 x = Num m"
    by (cases "MACD e") auto
  from fixed_Num [OF x(2)] fixed_Num [OF f(2)] fixed_Num [OF f(3)] x(1) at_opt_mem [OF Some]
  show ?thesis by blast
qed
lemma lower_macd: "toLowerCase ''macd'' = ''macd''"
  by code_simp

lemma closes_sample:
  "map close (flat_bars 33 100 @ [bar_of 34 105]) = replicate 33 (Num 100) @ [Num 105]"
  by code_simp

lemma MACD_sample:
  "MACD_calculate (replicate 33 (Num 100) @ [Num 105]) 12 26 9 =
     [\<lparr>MACD = Some (Num (140 / 351)), signal = Num (140 / 3159), histogram = Num (1120 / 3159)\<rparr>]"
  by code_simp

lemma rounded_sample:
  "round_fixed 4 (140 / 351) = 3989 / 10000" "round_fixed 4 (140 / 3159) = 443 / 10000"
  "round_fixed 4 (1120 / 3159) = 3545 / 10000"
  by code_simp+

lemma date_sample: "date ((flat_bars 33 100 @ [bar_of 34 105]) ! 25) = 26"
  by (simp add: flat_bars_def nth_append bar_of_def)

lemma macd_sample:
  "macd_point (MACD_calculate (map close (flat_bars 33 100 @ [bar_of 34 105])) 12 26 9)
          (flat_bars 33 100 @ [bar_of 34 105]) 25
     = MacdPoint 26 (Some (Num (3989 / 10000))) (Some (Num (443 / 10000))) (Some (Num (3545 / 10000)))"
  unfolding closes_sample MACD_sample
  by (simp add: macd_point_def at_opt_def date_sample rounded_sample)

text \<open>
  Claim C5, as the code has it. In every entry of \<open>MACD.calculate\<close> the histogram is
  the \<open>MACD\<close> field minus the signal. The entries returned to the caller carry each of the
  three fields rounded to four decimals on its own, so there the histogram is within
  \<open>0.00015\<close> of \<open>macd - signal\<close> whenever the three fields are finite numbers.
\<close>

theorem macd_histogram:
  "(\<forall>e \<in> set (MACD_calculate values fastPeriod slowPeriod signalPeriod).
       histogram e = jsub (to_num (MACD e)) (signal e))
   \<and> (\<forall>out i dt m s h.
         toLowerCase indicator = ''macd''
         \<and> calculateTechnicalIndicator bars indicator = Inr out \<and> i < length out
         \<and> out ! i = MacdPoint dt (Some (Num m)) (Some (Num s)) (Some (Num h))
        \<longrightarrow> \<bar>h - (m - s)\<bar> \<le> 3 / 20000)"
proof (intro conjI ballI allI impI)
  fix e
  assume "e \<in> set (MACD_calculate values fastPeriod slowPeriod signalPeriod)"
  then show "histogram e = jsub (to_num (MACD e)) (signal e)"
    by (rule MACD_calculate_histogram)
next
  fix out i dt m s h
  assume a: "toLowerCase indicator = ''macd''
         \<and> calculateTechnicalIndicator bars indicator = Inr out \<and> i < length out
         \<and> out ! i = MacdPoint dt (Some (Num m)) (Some (Num s)) (Some (Num h))"
  let ?M = "MACD_calculate (map close bars) 12 26 9"
  from a calc_macd [of indicator bars]
  have out: "out = map (macd_point ?M bars) [0..<length bars]"
    by simp
  with a have "macd_point ?M bars i = MacdPoint dt (Some (Num m)) (Some (Num s)) (Some (Num h))"
    by auto
  from macd_point_rounded [OF this] obtain e m0 s0 h0 where
    e: "e \<in> set ?M" "MACD e = Some (Num m0)" "signal e = Num s0" "histogram e = Num h0"
      "m = round_fixed 4 m0" "s = round_fixed 4 s0" "h = round_fixed 4 h0"
    by blast
  from MACD_calculate_histogram [OF e(1)] e(2-4) have h0: "h0 = m0 - s0"
    by (simp add: to_num_def jsub_def)
  have "\<bar>round_fixed 4 h0 - h0\<bar> \<le> 1 / 20000" "\<bar>round_fixed 4 m0 - m0\<bar> \<le> 1 / 20000"
    "\<bar>round_fixed 4 s0 - s0\<bar> \<le> 1 / 20000"
    using round_fixed_err [of 4] by simp_all
  then show "\<bar>h - (m - s)\<bar> \<le> 3 / 20000"
    unfolding e(5-7) h0 by linarith
qed

theorem macd_histogram_witness:
  "\<lparr>MACD = Some (Num (140 / 351)), signal = Num (140 / 3159), histogram = Num (1120 / 3159)\<rparr>
      \<in> set (MACD_calculate (replicate 33 (Num 100) @ [Num 105]) 12 26 9)
   \<and> Num (1120 / 3159) = jsub (to_num (Some (Num (140 / 351)))) (Num (140 / 3159))
   \<and> toLowerCase ''macd'' = ''macd''
   \<and> (\<exists>out. calculateTechnicalIndicator (flat_bars 33 100 @ [bar_of 34 105]) ''macd'' = Inr out
        \<and> 25 < length out
        \<and> out ! 25 = MacdPoint 26 (Some (Num (3989 / 10000))) (Some (Num (443 / 10000)))
                    (Some (Num (3545 / 10000))))
   \<and> \<bar>3545 / 10000 - (3989 / 10000 - 443 / 10000)\<bar> \<le> (3 / 20000 :: real)"
proof -
  let ?e = "\<lparr>MACD = Some (Num (140 / 351)), signal = Num (140 / 3159), histogram = Num (1120 / 3159)\<rparr>"
  let ?bars = "flat_bars 33 100 @ [bar_of 34 105]"
  let ?out = "map (macd_point (MACD_calculate (map close ?bars) 12 26 9) ?bars) [0..<34]"
  have m: "?e \<in> set (MACD_calculate (replicate 33 (Num 100) @ [Num 105]) 12 26 9)"
    by (simp add: MACD_sample)
  have len: "length ?bars = 34" by (simp add: flat_bars_def)
  have c: "calculateTechnicalIndicator ?bars ''macd'' = Inr ?out"
    using len by (simp add: calc_macd [OF lower_macd])
  have l: "25 < length ?out" by simp
  have o: "?out ! 25 = MacdPoint 26 (Some (Num (3989 / 10000))) (Some (Num (443 / 10000)))
                    (Some (Num (3545 / 10000)))"
    using macd_sample by simp
  note t = macd_histogram [of "replicate 33 (Num 100) @ [Num 105]" 12 26 9 "''macd''" ?bars]
  from t m have "histogram ?e = jsub (to_num (MACD ?e)) (signal ?e)" by blast
  then have h: "Num (1120 / 3159) = jsub (to_num (Some (Num (140 / 351)))) (Num (140 / 3159))"
    by simp
  from t lower_macd c l o
  have b: "\<bar>3545 / 10000 - (3989 / 10000 - 443 / 10000)\<bar> \<le> (3 / 20000 :: real)"
    by blast
  from c l o have "\<exists>out. calculateTechnicalIndicator ?bars ''macd'' = Inr out
        \<and> 25 < length out
        \<and> out ! 25 = MacdPoint 26 (Some (Num (3989 / 10000))) (Some (Num (443 / 10000)))
                    (Some (Num (3545 / 10000)))"
    by blast
  with m h lower_macd b show ?thesis by blast
qed

text \<open>
  The claim as stated fails: for 33 closes of 100 followed by a close of 105 the entry
  returned for the 26th date has \<open>macd = 0.3989\<close>, \<open>signal = 0.0443\<close> and
  \<open>histogram = 0.3545\<close>, which is not \<open>0.3989 - 0.0443 = 0.3546\<close>.
\<close>

theorem macd_histogram_counterexample:
  "\<exists>out. calculateTechnicalIndicator (flat_bars 33 100 @ [bar_of 34 105]) ''macd'' = Inr out
     \<and> out ! 25 = MacdPoint 26 (Some (Num (3989 / 10000))) (Some (Num (443 / 10000)))
                    (Some (Num (3545 / 10000)))
     \<and> (3545 / 10000 :: real) \<noteq> 3989 / 10000 - 443 / 10000"
proof -
  have "length (flat_bars 33 100 @ [bar_of 34 105]) = 34" by (simp add: flat_bars_def)
  then show ?thesis
    using macd_sample by (simp add: calc_macd [OF lower_macd])
qed

subsection \<open>The stochastic oscillator on a window of no width\<close>

lemma percent_k_zero_width:
  "percent_k (Num c) (Num w) (Num w) = (if c = w then NaN else if w < c then PosInf else NegInf)"
  by (simp add: percent_k_def jsub_def inf_of_sign_def)

lemma calc_stochastic:
  "toLowerCase indicator = ''stochastic'' \<Longrightarrow>
     calculateTechnicalIndicator bars indicator
       = Inr (map (stoch_point (Stochastic (map high bars) (map low bars) (map close bars) 14 3) bars)
               [0..<length bars])"
  by (simp add: calculateTechnicalIndicator_def Let_def)

lemma at_opt_int: "m < length xs \<Longrightarrow> at_opt xs (int m) = Some (xs ! m)"
  by (simp add: at_opt_def)

lemma Stochastic_entries:
  assumes "1 \<le> p" "1 \<le> sp"
  shows "length (Stochastic hs ls cs p sp) = length cs - (p + sp - 2)"
    and "j < length cs - (p + sp - 2) \<Longrightarrow>
           percentK (Stochastic hs ls cs p sp ! j)
             = Some (stoch_k hs ls cs p (int (p + sp - 2 + j)))"
proof -
  let ?is = "[int p - 1 .. int (length cs) - 1]"
  let ?ks = "map (stoch_k hs ls cs p) ?is"
  have lk: "length ?ks = length cs - (p - 1)" using assms(1) by simp
  have ld: "length (SMA sp ?ks) = length cs - (p + sp - 2)"
    using assms unfolding length_SMA lk by simp
  show "length (Stochastic hs ls cs p sp) = length cs - (p + sp - 2)"
    using ld by (simp add: Stochastic_def Let_def)
  assume j: "j < length cs - (p + sp - 2)"
  then have n: "j + (sp - 1) < length ?ks" using assms unfolding lk by simp
  then have n': "j + (sp - 1) < length ?is" by simp
  have i: "int j + (int sp - 1) = int (j + (sp - 1))" using assms(2) by simp
  have b: "int p - 1 + int (j + (sp - 1)) \<le> int (length cs) - 1"
    using j assms by simp
  have e: "int p - 1 + int (j + (sp - 1)) = int (p + sp - 2 + j)" using assms by simp
  have "?ks ! (j + (sp - 1)) = stoch_k hs ls cs p (?is ! (j + (sp - 1)))"
    by (rule nth_map [OF n'])
  also have "?is ! (j + (sp - 1)) = int p - 1 + int (j + (sp - 1))"
    by (rule nth_upto [OF b])
  finally have v: "?ks ! (j + (sp - 1)) = stoch_k hs ls cs p (int (p + sp - 2 + j))"
    unfolding e .
  have k: "at_opt ?ks (int j + (int sp - 1))
             = Some (stoch_k hs ls cs p (int (p + sp - 2 + j)))"
    unfolding i at_opt_int [OF n] v ..
  from j ld have "j < length (SMA sp ?ks)" by simp
  then show "percentK (Stochastic hs ls cs p sp ! j)
             = Some (stoch_k hs ls cs p (int (p + sp - 2 + j)))"
    unfolding Stochastic_def Let_def using k by simp
qed

lemma zero_width_value:
  "fixed n (if c = w then NaN else if w < c then PosInf else NegInf)
     = (if (c::real) = w then NaN else if w < c then PosInf else NegInf)"
  by simp

lemma num_at_map: "n < length bars \<Longrightarrow> num_at (map f bars) (int n) = f (bars ! n)"
  by (simp add: num_at_def at_opt_def to_num_def)

lemma stochastic_record:
  assumes "toLowerCase indicator = ''stochastic''" "15 \<le> n" "n < length bars"
    and "highestHigh (map high bars) 14 (int n) = Num w"
    and "lowestLow (map low bars) 14 (int n) = Num w"
    and "close (bars ! n) = Num c"
  shows "\<exists>out. calculateTechnicalIndicator bars indicator = Inr out \<and> length out = length bars
           \<and> k_of (out ! (n - 2)) = Some (if c = w then NaN else if w < c then PosInf else NegInf)"
proof -
  let ?S = "Stochastic (map high bars) (map low bars) (map close bars) 14 3"
  let ?v = "if c = w then NaN else if w < c then PosInf else NegInf"
  have j: "n - 15 < length (map close bars) - (14 + 3 - 2)" using assms(2,3) by simp
  have l: "length ?S = length bars - 15"
    using Stochastic_entries(1) [of 14 3 "map high bars" "map low bars" "map close bars"] by simp
  have "percentK (?S ! (n - 15))
          = Some (stoch_k (map high bars) (map low bars) (map close bars) 14 (int (14 + 3 - 2 + (n - 15))))"
    by (rule Stochastic_entries(2) [OF _ _ j]) simp_all
  moreover have "int (14 + 3 - 2 + (n - 15)) = int n" using assms(2) by simp
  moreover have "stoch_k (map high bars) (map low bars) (map close bars) 14 (int n) = ?v"
    using assms(3-6) by (simp add: stoch_k_def num_at_map percent_k_zero_width)
  ultimately have k: "percentK (?S ! (n - 15)) = Some ?v" by simp
  have a: "at_opt ?S (int (n - 2) - 13) = Some (?S ! (n - 15))"
  proof -
    have "int (n - 2) - 13 = int (n - 15)" using assms(2) by simp
    moreover have "n - 15 < length ?S" using l assms(2,3) by simp
    ultimately show ?thesis using at_opt_int [of "n - 15" ?S] by simp
  qed
  have "k_of (stoch_point ?S bars (n - 2)) = Some (fixed 2 ?v)"
    unfolding stoch_point_def a using k by simp
  then have "k_of (stoch_point ?S bars (n - 2)) = Some ?v"
    unfolding zero_width_value .
  moreover have "n - 2 < length bars" using assms(3) by simp
  ultimately show ?thesis
    using calc_stochastic [OF assms(1), of bars] by simp
qed

lemma flat_prices:
  "map high (flat_bars 16 100) = replicate 16 (Num 100)"
  "map low (flat_bars 16 100) = replicate 16 (Num 100)"
  "map close (flat_bars 16 100) = replicate 16 (Num 100)"
  by code_simp+

lemma Stochastic_flat:
  "Stochastic (replicate 16 (Num 100)) (replicate 16 (Num 100)) (replicate 16 (Num 100)) 14 3
     = [\<lparr>percentK = Some NaN, percentD = NaN\<rparr>]"
  by code_simp

lemma flat_window:
  "highestHigh (replicate 16 (Num 100)) 14 15 = Num 100"
  "lowestLow (replicate 16 (Num 100)) 14 15 = Num 100"
  "num_at (replicate 16 (Num 100)) 15 = Num 100"
  by code_simp+

lemma lower_stochastic: "toLowerCase ''stochastic'' = ''stochastic''"
  by code_simp

lemma date_flat: "i < n \<Longrightarrow> date (flat_bars n c ! i) = int i + 1"
  by (simp add: flat_bars_def bar_of_def)

lemma close_flat: "i < n \<Longrightarrow> close (flat_bars n c ! i) = Num c"
  by (simp add: flat_bars_def bar_of_def)

lemma stoch_flat_point:
  "stoch_point (Stochastic (map high (flat_bars 16 100)) (map low (flat_bars 16 100))
       (map close (flat_bars 16 100)) 14 3) (flat_bars 16 100) 13
     = StochPoint 14 (Some NaN) (Some NaN)"
  unfolding flat_prices Stochastic_flat
  by (simp add: stoch_point_def at_opt_def date_flat)

text \<open>
  Claim C7, as the code has it. When the highest high and the lowest low of the window
  that ends at a bar are the same finite number and the close of the bar is finite, nothing
  is raised and \<open>%K\<close> is not a sentinel: it is \<open>NaN\<close> when the close is that number too,
  \<open>Infinity\<close> when the close is above it and \<open>-Infinity\<close> when it is below.
  \<open>Stochastic.calculate\<close> keeps the \<open>%K\<close> of the window that ends at bar
  \<open>period + signalPeriod - 2 + j\<close> as the \<open>k\<close> of its entry \<open>j\<close>, and has no entry for an
  earlier window. For a window of no width that ends at bar \<open>n\<close>, \<open>15 \<le> n\<close>,
  \<open>calculateTechnicalIndicator\<close> returns that value, which rounding leaves as it is, as
  the \<open>k\<close> of the record at position \<open>n - 2\<close> of its result, not \<open>null\<close>.
\<close>

theorem stochastic_zero_width:
  "(highestHigh hs period i = Num w \<and> lowestLow ls period i = Num w \<and> num_at cs i = Num c
      \<longrightarrow> stoch_k hs ls cs period i = (if c = w then NaN else if w < c then PosInf else NegInf))
   \<and> (1 \<le> period \<and> 1 \<le> signalPeriod
      \<longrightarrow> length (Stochastic hs ls cs period signalPeriod)
            = length cs - (period + signalPeriod - 2)
          \<and> (\<forall>j < length cs - (period + signalPeriod - 2).
                percentK (Stochastic hs ls cs period signalPeriod ! j)
                  = Some (stoch_k hs ls cs period (int (period + signalPeriod - 2 + j)))))
   \<and> (toLowerCase indicator = ''stochastic'' \<and> 15 \<le> n \<and> n < length bars
        \<and> highestHigh (map high bars) 14 (int n) = Num w'
        \<and> lowestLow (map low bars) 14 (int n) = Num w'
        \<and> close (bars ! n) = Num c'
      \<longrightarrow> (\<exists>out. calculateTechnicalIndicator bars indicator = Inr out \<and> length out = length bars
             \<and> k_of (out ! (n - 2))
                 = Some (if c' = w' then NaN else if w' < c' then PosInf else NegInf)))"
proof (intro conjI impI)
  assume "highestHigh hs period i = Num w \<and> lowestLow ls period i = Num w \<and> num_at cs i = Num c"
  then show "stoch_k hs ls cs period i = (if c = w then NaN else if w < c then PosInf else NegInf)"
    by (simp add: stoch_k_def percent_k_zero_width)
next
  assume "1 \<le> period \<and> 1 \<le> signalPeriod"
  then show "length (Stochastic hs ls cs period signalPeriod)
            = length cs - (period + signalPeriod - 2)"
    by (simp add: Stochastic_entries(1))
next
  assume "1 \<le> period \<and> 1 \<le> signalPeriod"
  then show "\<forall>j < length cs - (period + signalPeriod - 2).
                percentK (Stochastic hs ls cs period signalPeriod ! j)
                  = Some (stoch_k hs ls cs period (int (period + signalPeriod - 2 + j)))"
    by (simp add: Stochastic_entries(2))
next
  assume "toLowerCase indicator = ''stochastic'' \<and> 15 \<le> n \<and> n < length bars
        \<and> highestHigh (map high bars) 14 (int n) = Num w'
        \<and> lowestLow (map low bars) 14 (int n) = Num w'
        \<and> close (bars ! n) = Num c'"
  then show "\<exists>out. calculateTechnicalIndicator bars indicator = Inr out \<and> length out = length bars
             \<and> k_of (out ! (n - 2))
                 = Some (if c' = w' then NaN else if w' < c' then PosInf else NegInf)"
    using stochastic_record [of indicator n bars w' c'] by blast
qed

theorem stochastic_zero_width_witness:
  "highestHigh (replicate 16 (Num 100)) 14 15 = Num 100
   \<and> lowestLow (replicate 16 (Num 100)) 14 15 = Num 100
   \<and> num_at (replicate 16 (Num 100)) 15 = Num 100
   \<and> stoch_k (replicate 16 (Num 100)) (replicate 16 (Num 100)) (replicate 16 (Num 100)) 14 15 = NaN
   \<and> (1::nat) \<le> 14 \<and> (1::nat) \<le> 3
   \<and> length (Stochastic (replicate 16 (Num 100)) (replicate 16 (Num 100))
          (replicate 16 (Num 100)) 14 3) = 1
   \<and> percentK (Stochastic (replicate 16 (Num 100)) (replicate 16 (Num 100))
          (replicate 16 (Num 100)) 14 3 ! 0) = Some NaN
   \<and> toLowerCase ''stochastic'' = ''stochastic'' \<and> (15::nat) \<le> 15
   \<and> 15 < length (flat_bars 16 100)
   \<and> highestHigh (map high (flat_bars 16 100)) 14 (int 15) = Num 100
   \<and> lowestLow (map low (flat_bars 16 100)) 14 (int 15) = Num 100
   \<and> close (flat_bars 16 100 ! 15) = Num 100
   \<and> (\<exists>out. calculateTechnicalIndicator (flat_bars 16 100) ''stochastic'' = Inr out
         \<and> length out = 16 \<and> k_of (out ! 13) = Some NaN)"
proof -
  let ?xs = "replicate 16 (Num 100)"
  note t = stochastic_zero_width [of ?xs 14 15 100 ?xs ?xs 100 3 "''stochastic''" 15
      "flat_bars 16 100" 100 100]
  have p: "(1::nat) \<le> 14" "(1::nat) \<le> 3" "(15::nat) \<le> 15" by simp_all
  have len: "15 < length (flat_bars 16 100)" by (simp add: flat_bars_def)
  have w: "highestHigh (map high (flat_bars 16 100)) 14 (int 15) = Num 100"
    "lowestLow (map low (flat_bars 16 100)) 14 (int 15) = Num 100"
    "close (flat_bars 16 100 ! 15) = Num 100"
    by (simp_all add: flat_prices flat_window close_flat)
  from t flat_window have k: "stoch_k ?xs ?xs ?xs 14 15 = NaN" by simp
  from t have l: "length (Stochastic ?xs ?xs ?xs 14 3) = 1" by simp
  from t k have e: "percentK (Stochastic ?xs ?xs ?xs 14 3 ! 0) = Some NaN" by simp
  from t lower_stochastic len w
  have o: "\<exists>out. calculateTechnicalIndicator (flat_bars 16 100) ''stochastic'' = Inr out
         \<and> length out = 16 \<and> k_of (out ! 13) = Some NaN"
    by (simp add: flat_bars_def)
  show ?thesis
    by (intro conjI) (fact flat_window k p l e lower_stochastic len w o)+
qed

text \<open>
  The claim as stated fails: for 16 bars whose prices are all 100 the window that ends at
  the last bar has no width, and its \<open>%K\<close> comes back in the record at position 13, with
  \<open>k = NaN\<close> and \<open>d = NaN\<close>.
\<close>

theorem stochastic_zero_width_counterexample:
  "highestHigh (map high (flat_bars 16 100)) 14 15 = Num 100
   \<and> lowestLow (map low (flat_bars 16 100)) 14 15 = Num 100
   \<and> (\<exists>out. calculateTechnicalIndicator (flat_bars 16 100) ''stochastic'' = Inr out
         \<and> out ! 13 = StochPoint 14 (Some NaN) (Some NaN))"
proof -
  have "length (flat_bars 16 100) = 16" by (simp add: flat_bars_def)
  then show ?thesis
    using stoch_flat_point
    by (simp add: calc_stochastic [OF lower_stochastic] flat_prices flat_window)
qed

subsection \<open>The range of the RSI\<close>

lemma nonneg_gain: "nonneg (gain_of c)"
  by (cases c) (simp_all add: gain_of_def nonneg_def jgt_def)

lemma nonneg_loss: "nonneg (loss_of c)"
  by (cases c) (simp_all add: loss_of_def nonneg_def)

lemma nonneg_jadd: "nonneg a \<Longrightarrow> nonneg b \<Longrightarrow> nonneg (jadd a b)"
  by (cases a; cases b) (simp_all add: nonneg_def)

lemma nonneg_foldl: "nonneg a \<Longrightarrow> \<forall>x \<in> set xs. nonneg x \<Longrightarrow> nonneg (foldl jadd a xs)"
  by (induction xs arbitrary: a) (simp_all add: nonneg_jadd)

lemma nonneg_jsum: "\<forall>x \<in> set xs. nonneg x \<Longrightarrow> nonneg (jsum xs)"
  unfolding jsum_def by (rule nonneg_foldl) (simp_all add: nonneg_def)

lemma nonneg_jdiv: "nonneg a \<Longrightarrow> 0 \<le> p \<Longrightarrow> nonneg (jdiv a (Num p))"
  by (cases a) (simp_all add: nonneg_def)

lemma nonneg_jmul: "nonneg a \<Longrightarrow> 0 \<le> q \<Longrightarrow> nonneg (jmul a (Num q))"
  by (cases a) (simp_all add: nonneg_def inf_of_sign_def)

lemma nonneg_smooth:
  assumes "1 \<le> p" "nonneg avg" "nonneg x"
  shows "nonneg (smooth p avg x)"
proof -
  have "jsub (Num (real p)) (Num 1) = Num (real p - 1)" by (simp add: jsub_def)
  moreover have "0 \<le> real p - 1" using assms(1) by simp
  ultimately show ?thesis
    unfolding smooth_def using assms(2,3)
    by (simp add: nonneg_jdiv nonneg_jadd nonneg_jmul)
qed

lemma percent_bound:
  fixes t :: real
  assumes "0 \<le> t"
  shows "0 \<le> 100 - 100 / (1 + t)" "100 - 100 / (1 + t) \<le> 100"
proof -
  have "100 / (1 + t) \<le> 100 / 1"
    using assms by (intro divide_left_mono) simp_all
  then show "0 \<le> 100 - 100 / (1 + t)" by simp
  have "0 \<le> 100 / (1 + t)" using assms by simp
  then show "100 - 100 / (1 + t) \<le> 100" by simp
qed

lemma rsi_of_Num:
  assumes "0 \<le> a" "0 \<le> b"
  shows "rsi_of (Num a) (Num b)
           = (if b = 0 then (if a = 0 then NaN else Num 100) else Num (100 - 100 / (1 + a / b)))"
proof -
  have "1 + a / b \<noteq> 0" if "b \<noteq> 0"
  proof -
    have "0 \<le> a / b" using assms by simp
    then show ?thesis by linarith
  qed
  then show ?thesis using assms
    by (simp add: rsi_of_def Let_def jsub_def)
qed

lemma percent_rsi_of:
  assumes "nonneg a" "nonneg b"
  shows "percent (rsi_of a b)"
proof (cases a)
  case na: (Num x)
  show ?thesis
  proof (cases b)
    case (Num y)
    have "0 \<le> x / y" using assms na Num by (simp add: nonneg_def)
    from percent_bound [OF this] show ?thesis
      using assms na Num by (simp add: rsi_of_Num nonneg_def percent_def)
  qed (use assms na in \<open>simp_all add: rsi_of_def Let_def jsub_def percent_def nonneg_def\<close>)
next
  case PosInf
  then show ?thesis using assms
    by (cases b) (simp_all add: rsi_of_def Let_def jsub_def percent_def nonneg_def)
next
  case NegInf
  then show ?thesis using assms by (simp add: nonneg_def)
next
  case NaN
  then show ?thesis by (simp add: rsi_of_def Let_def jsub_def percent_def)
qed

lemma percent_rsi_run:
  assumes "1 \<le> p"
  shows "nonneg a \<Longrightarrow> nonneg b \<Longrightarrow> \<forall>z \<in> set zs. nonneg (fst z) \<and> nonneg (snd z)
           \<Longrightarrow> \<forall>v \<in> set (rsi_run p a b zs). percent v"
proof (induction zs arbitrary: a b)
  case Nil
  show ?case by simp
next
  case (Cons z zs)
  obtain g l where z: "z = (g, l)" by (cases z)
  have s: "nonneg (smooth p a g)" "nonneg (smooth p b l)"
    using Cons.prems z assms by (simp_all add: nonneg_smooth)
  from Cons.IH [OF s] Cons.prems(3) percent_rsi_of [OF s]
  show ?case by (simp add: z Let_def)
qed

lemma smooth_NaN: "smooth p NaN x = NaN"
  by (simp add: smooth_def)

lemma rsi_run_NaN: "\<forall>v \<in> set (rsi_run p NaN b zs). v = NaN"
proof (induction zs arbitrary: b)
  case Nil
  show ?case by simp
next
  case (Cons z zs)
  obtain g l where z: "z = (g, l)" by (cases z)
  show ?case using Cons.IH
    by (simp add: z Let_def smooth_NaN rsi_of_def jsub_def)
qed

lemma percent_RSI: "\<forall>v \<in> set (RSI xs p). percent v"
proof (cases "p = 0")
  case True
  have "RSI xs 0 = rsi_run 0 NaN NaN (zip (map gain_of (changes xs)) (map loss_of (changes xs)))"
    by (simp add: RSI_def Let_def jsum_def)
  moreover have "percent v" if "v = NaN" for v
    using that by (simp add: percent_def)
  ultimately show ?thesis
    using rsi_run_NaN [of 0 NaN] True by metis
next
  case False
  let ?gains = "map gain_of (changes xs)"
  let ?losses = "map loss_of (changes xs)"
  have gl: "nonneg x" if "x \<in> set ?gains \<or> x \<in> set ?losses" for x
    using that by (auto simp: nonneg_gain nonneg_loss)
  have g: "\<forall>x \<in> set (take p ?gains). nonneg x" "\<forall>x \<in> set (take p ?losses). nonneg x"
    using gl by (blast dest: in_set_takeD)+
  have a: "nonneg (jdiv (jsum (take p ?gains)) (Num (real p)))"
    "nonneg (jdiv (jsum (take p ?losses)) (Num (real p)))"
    using g by (simp_all add: nonneg_jdiv nonneg_jsum)
  have z: "\<forall>z \<in> set (zip (drop p ?gains) (drop p ?losses)). nonneg (fst z) \<and> nonneg (snd z)"
  proof
    fix z
    assume "z \<in> set (zip (drop p ?gains) (drop p ?losses))"
    moreover obtain g l where "z = (g, l)" by (cases z)
    ultimately have "fst z \<in> set (drop p ?gains)" "snd z \<in> set (drop p ?losses)"
      by (auto dest: set_zip_leftD set_zip_rightD)
    then have "fst z \<in> set ?gains" "snd z \<in> set ?losses"
      by (blast dest: in_set_dropD)+
    with gl show "nonneg (fst z) \<and> nonneg (snd z)" by blast
  qed
  from False have "1 \<le> p" by simp
  from percent_rsi_run [OF this a z] show ?thesis
    by (simp add: RSI_def Let_def)
qed

lemma round_fixed_percent:
  assumes "0 \<le> a" "a \<le> 100"
  shows "0 \<le> round_fixed n a" "round_fixed n a \<le> 100"
proof -
  have small: "\<not> 10 ^ 21 \<le> \<bar>a\<bar>" using assms by simp
  have r: "round_fixed n a = of_int \<lfloor>a * 10 ^ n + 1 / 2\<rfloor> / 10 ^ n"
    using small assms by (simp add: round_fixed_def)
  have "0 \<le> a * 10 ^ n + 1 / 2" using assms by simp
  then have "0 \<le> \<lfloor>a * 10 ^ n + 1 / 2\<rfloor>" by simp
  then show "0 \<le> round_fixed n a" by (simp add: r)
  have "a * 10 ^ n \<le> 100 * 10 ^ n" using assms by simp
  then have "a * 10 ^ n + 1 / 2 < 100 * 10 ^ n + 1" by linarith
  moreover have "(of_int (100 * 10 ^ n + 1) :: real) = 100 * 10 ^ n + 1" by simp
  ultimately have "a * 10 ^ n + 1 / 2 < of_int (100 * 10 ^ n + 1)" by (simp only:)
  then have "\<lfloor>a * 10 ^ n + 1 / 2\<rfloor> < 100 * 10 ^ n + 1" by (simp only: floor_less_iff)
  then have "\<lfloor>a * 10 ^ n + 1 / 2\<rfloor> \<le> 100 * 10 ^ n" by simp
  then have "(of_int \<lfloor>a * 10 ^ n + 1 / 2\<rfloor> :: real) \<le> of_int (100 * 10 ^ n)"
    by (simp only: of_int_le_iff)
  then have "(of_int \<lfloor>a * 10 ^ n + 1 / 2\<rfloor> :: real) / 10 ^ n \<le> 100 * 10 ^ n / 10 ^ n"
    by (intro divide_right_mono) simp_all
  then show "round_fixed n a \<le> 100" by (simp add: r)
qed

lemma num_at_mem: "truthy (num_at xs i) \<Longrightarrow> num_at xs i \<in> set xs"
  by (auto simp: num_at_def at_opt_def to_num_def split: if_splits)

lemma value_mapIndicatorToData:
  assumes "pt \<in> set (mapIndicatorToData bars vals p)"
  shows "value_of pt = None
         \<or> (\<exists>v \<in> set vals. truthy v \<and> value_of pt = Some (fixed 4 v))"
proof -
  from assms obtain x where x: "x < length bars"
    "pt = ValuePoint (date (bars ! x))
       (if 0 \<le> int x - (int p - 1) \<and> truthy (num_at vals (int x - (int p - 1)))
        then Some (fixed 4 (num_at vals (int x - (int p - 1)))) else None)
       (close (bars ! x))"
    by (auto simp: mapIndicatorToData_def Let_def)
  show ?thesis
  proof (cases "0 \<le> int x - (int p - 1) \<and> truthy (num_at vals (int x - (int p - 1)))")
    case True
    then have "num_at vals (int x - (int p - 1)) \<in> set vals" by (simp add: num_at_mem)
    with True x(2) show ?thesis by auto
  next
    case False
    with x(2) show ?thesis by auto
  qed
qed
lemma RSI_flat: "RSI (replicate 16 (Num 100)) 14 = [NaN]"
  by code_simp
lemma RSI_zigzag: "RSI (map close (zigzag_bars 16)) 14 = [Num (375 / 7)]"
  by code_simp

lemma rsi_zigzag_values:
  "map value_of (mapIndicatorToData (zigzag_bars 16) [Num (375 / 7)] 14)
     = replicate 13 None @ [Some (Num (267857 / 5000)), None, None]"
  by code_simp

text \<open>
  Claim C3, as the code has it. For every series and every period, every value of
  \<open>RSI.calculate\<close> is \<open>NaN\<close> or a number from 0 to 100. When the average loss is \<open>0\<close>
  the value is 100 if the average gain is positive, and \<open>NaN\<close> if the average gain is
  \<open>0\<close> too. In the per-date records of the RSI every value is \<open>null\<close> or a number from
  0 to 100: a \<open>NaN\<close> is reported as \<open>null\<close>.
\<close>

theorem rsi_range:
  "(\<forall>v \<in> set (RSI xs p). v = NaN \<or> (\<exists>r. v = Num r \<and> 0 \<le> r \<and> r \<le> 100))
   \<and> (\<forall>g. 0 < g \<longrightarrow> rsi_of (Num g) (Num 0) = Num 100)
   \<and> rsi_of (Num 0) (Num 0) = NaN
   \<and> (\<forall>pt \<in> set (mapIndicatorToData bars (RSI (map close bars) 14) 14).
         value_of pt = None \<or> (\<exists>r. value_of pt = Some (Num r) \<and> 0 \<le> r \<and> r \<le> 100))"
proof (intro conjI ballI allI impI)
  fix v
  assume "v \<in> set (RSI xs p)"
  with percent_RSI have "percent v" by blast
  then show "v = NaN \<or> (\<exists>r. v = Num r \<and> 0 \<le> r \<and> r \<le> 100)"
    by (cases v) (simp_all add: percent_def)
next
  fix g :: real
  assume "0 < g"
  then show "rsi_of (Num g) (Num 0) = Num 100" by (simp add: rsi_of_Num)
next
  show "rsi_of (Num 0) (Num 0) = NaN" by (simp add: rsi_of_Num)
next
  fix pt
  assume "pt \<in> set (mapIndicatorToData bars (RSI (map close bars) 14) 14)"
  from value_mapIndicatorToData [OF this]
  show "value_of pt = None \<or> (\<exists>r. value_of pt = Some (Num r) \<and> 0 \<le> r \<and> r \<le> 100)"
  proof
    assume "value_of pt = None"
    then show ?thesis by simp
  next
    assume "\<exists>v \<in> set (RSI (map close bars) 14). truthy v \<and> value_of pt = Some (fixed 4 v)"
    then obtain v where v: "v \<in> set (RSI (map close bars) 14)" "truthy v"
      "value_of pt = Some (fixed 4 v)" by blast
    from v(1) percent_RSI have "percent v" by blast
    with v(2) obtain r where r: "v = Num r" "0 \<le> r" "r \<le> 100"
      by (cases v) (simp_all add: percent_def)
    from round_fixed_percent [OF r(2,3), of 4] v(3) r(1) show ?thesis by simp
  qed
qed

theorem rsi_range_witness:
  "Num (375 / 7) \<in> set (RSI (map close (zigzag_bars 16)) 14)
   \<and> (0::real) \<le> 375 / 7 \<and> (375 / 7 :: real) \<le> 100
   \<and> (0::real) < 1 \<and> rsi_of (Num 1) (Num 0) = Num 100
   \<and> rsi_of (Num 0) (Num 0) = NaN
   \<and> mapIndicatorToData (zigzag_bars 16) (RSI (map close (zigzag_bars 16)) 14) 14 ! 13
       \<in> set (mapIndicatorToData (zigzag_bars 16) (RSI (map close (zigzag_bars 16)) 14) 14)
   \<and> value_of (mapIndicatorToData (zigzag_bars 16) (RSI (map close (zigzag_bars 16)) 14) 14 ! 13)
       = Some (Num (267857 / 5000))
   \<and> (0::real) \<le> 267857 / 5000 \<and> (267857 / 5000 :: real) \<le> 100"
proof -
  let ?out = "mapIndicatorToData (zigzag_bars 16) (RSI (map close (zigzag_bars 16)) 14) 14"
  note t = rsi_range [of "map close (zigzag_bars 16)" 14 "zigzag_bars 16"]
  have n: "Num (375 / 7) \<in> set (RSI (map close (zigzag_bars 16)) 14)"
    by (simp add: RSI_zigzag)
  with t have b: "(0::real) \<le> 375 / 7 \<and> (375 / 7 :: real) \<le> 100" by blast
  from t have g: "rsi_of (Num 1) (Num 0) = Num 100" by simp
  from t have z: "rsi_of (Num 0) (Num 0) = NaN" by blast
  have len: "length ?out = 16"
    by (simp add: length_mapIndicatorToData zigzag_bars_def)
  then have m: "?out ! 13 \<in> set ?out" by simp
  have "map value_of ?out ! 13 = Some (Num (267857 / 5000))"
    unfolding RSI_zigzag rsi_zigzag_values by (simp add: nth_append)
  with len have v: "value_of (?out ! 13) = Some (Num (267857 / 5000))" by simp
  with t m have c: "(0::real) \<le> 267857 / 5000 \<and> (267857 / 5000 :: real) \<le> 100" by auto
  show ?thesis using n b g z m v c by simp
qed

text \<open>
  The claim as stated fails: for 16 closes of 100 the average gain and the average loss
  are both \<open>0\<close>, and the one value of \<open>RSI.calculate\<close> is \<open>NaN\<close>, not 100.
\<close>

theorem rsi_range_counterexample:
  "RSI (replicate 16 (Num 100)) 14 = [NaN]
   \<and> smooth 14 (Num 0) (Num 0) = Num 0
   \<and> rsi_of (Num 0) (Num 0) = NaN"
  using RSI_flat by (simp add: rsi_of_Num smooth_def jsub_def)

subsection \<open>The warm-up of the moving averages\<close>

lemma positive_truthy: "positive x \<Longrightarrow> truthy x"
  by (cases x) (simp_all add: positive_def)

lemma positive_foldl:
  "0 \<le> a \<Longrightarrow> \<forall>y \<in> set ys. positive y
     \<Longrightarrow> \<exists>r. foldl jadd (Num a) ys = Num r \<and> a \<le> r \<and> (ys \<noteq> [] \<longrightarrow> a < r)"
proof (induction ys arbitrary: a)
  case Nil
  then show ?case by simp
next
  case (Cons y ys)
  from Cons.prems obtain c where c: "y = Num c" "0 < c"
    by (cases y) (simp_all add: positive_def)
  from Cons.prems c have "0 \<le> a + c" by simp
  from Cons.IH [OF this] Cons.prems(2) obtain r where
    "foldl jadd (Num (a + c)) ys = Num r" "a + c \<le> r" by auto
  with c show ?case by auto
qed

lemma positive_jsum: "ys \<noteq> [] \<Longrightarrow> \<forall>y \<in> set ys. positive y \<Longrightarrow> positive (jsum ys)"
  using positive_foldl [of 0 ys] by (auto simp: jsum_def positive_def)

lemma positive_mean:
  assumes "1 \<le> p" "ys \<noteq> []" "\<forall>y \<in> set ys. positive y"
  shows "positive (jdiv (jsum ys) (Num (real p)))"
proof -
  from positive_jsum [OF assms(2,3)] obtain r where "jsum ys = Num r" "0 < r"
    by (cases "jsum ys") (simp_all add: positive_def)
  with assms(1) show ?thesis by (simp add: positive_def)
qed

lemma num_at_nth: "i < length xs \<Longrightarrow> num_at xs (int i) = xs ! i"
  by (simp add: num_at_def at_opt_def to_num_def)

lemma positive_window:
  assumes "\<forall>x \<in> set xs. positive x" "int p - 1 \<le> i" "i < int (length xs)"
  shows "\<forall>y \<in> set (window xs p i). positive y"
proof
  fix y
  assume "y \<in> set (window xs p i)"
  then obtain j where j: "j < p" "y = num_at xs (i - int j)"
    by (auto simp: window_def)
  from j(1) assms(2,3) have "0 \<le> i - int j" "i - int j < int (length xs)" by simp_all
  then have "num_at xs (i - int j) = xs ! nat (i - int j)" "nat (i - int j) < length xs"
    by (simp_all add: num_at_def at_opt_def to_num_def)
  with assms(1) j(2) show "positive y" by simp
qed

lemma positive_SMA:
  assumes "1 \<le> p" "\<forall>x \<in> set xs. positive x" "j < length (SMA p xs)"
  shows "positive (SMA p xs ! j)"
proof -
  let ?i = "int p - 1 + int j"
  from assms(3) have j: "?i \<le> int (length xs) - 1" by (simp add: length_SMA)
  then have n: "SMA p xs ! j = jdiv (jsum (window xs p ?i)) (Num (real p))"
    using assms(3) by (simp add: SMA_def nth_upto)
  have "window xs p ?i \<noteq> []" using assms(1) by (simp add: window_def)
  moreover have "\<forall>y \<in> set (window xs p ?i). positive y"
    using assms(2) j by (intro positive_window) simp_all
  ultimately show ?thesis using assms(1) by (simp add: n positive_mean)
qed

lemma length_ema_run: "length (ema_run m prev xs) = length xs"
  by (induction xs arbitrary: prev) (simp_all add: Let_def)

lemma length_EMA: "length (EMA p xs) = 1 + (length xs - p)"
  by (simp add: EMA_def Let_def length_ema_run)

lemma positive_ema_run:
  assumes "0 < t" "t \<le> 1"
  shows "0 < prev \<Longrightarrow> \<forall>x \<in> set xs. positive x
           \<Longrightarrow> \<forall>v \<in> set (ema_run (Num t) (Num prev) xs). positive v"
proof (induction xs arbitrary: prev)
  case Nil
  show ?case by simp
next
  case (Cons x xs)
  from Cons.prems obtain c where c: "x = Num c" "0 < c"
    by (cases x) (simp_all add: positive_def)
  have "0 < c * t" using c assms by simp
  moreover have "0 \<le> prev * (1 - t)" using Cons.prems(1) assms by simp
  ultimately have e: "0 < c * t + prev * (1 - t)" by linarith
  from Cons.IH [OF e] Cons.prems(2) e show ?case
    by (simp add: c Let_def jsub_def positive_def)
qed

lemma positive_EMA:
  assumes "1 \<le> p" "p \<le> length xs" "\<forall>x \<in> set xs. positive x"
  shows "\<forall>v \<in> set (EMA p xs). positive v"
proof -
  let ?first = "jdiv (jsum (map (\<lambda>i. num_at xs (int i)) [0..<p])) (Num (real p))"
  have "\<forall>y \<in> set (map (\<lambda>i. num_at xs (int i)) [0..<p]). positive y"
    using assms(2,3) by (auto simp: num_at_nth)
  moreover have "map (\<lambda>i. num_at xs (int i)) [0..<p] \<noteq> []" using assms(1) by simp
  ultimately have f: "positive ?first" using assms(1) by (intro positive_mean)
  then obtain r where r: "?first = Num r" "0 < r"
    by (cases ?first) (simp_all add: positive_def)
  have m: "jdiv (Num 2) (jadd (Num (real p)) (Num 1)) = Num (2 / (real p + 1))"
    by simp
  have t: "0 < 2 / (real p + 1)" "2 / (real p + 1) \<le> 1" using assms(1) by simp_all
  have "\<forall>x \<in> set (drop p xs). positive x" using assms(3) by (blast dest: in_set_dropD)
  from positive_ema_run [OF t r(2) this] f show ?thesis
    unfolding EMA_def Let_def m r(1) by (simp add: positive_def r)
qed

lemma value_nth:
  assumes "i < length bars"
  shows "value_of (mapIndicatorToData bars vals p ! i)
           = (if 0 \<le> int i - (int p - 1) \<and> truthy (num_at vals (int i - (int p - 1)))
              then Some (fixed 4 (num_at vals (int i - (int p - 1)))) else None)"
  using assms by (simp add: mapIndicatorToData_def Let_def)

lemma warmup_values:
  assumes "1 \<le> p"
    and "\<forall>j. j < length bars - (p - 1) \<longrightarrow> j < length vals \<and> positive (vals ! j)"
    and "i < length bars"
  shows "(value_of (mapIndicatorToData bars vals p ! i) = None) = (i < p - 1)"
proof (cases "i < p - 1")
  case True
  then have "\<not> 0 \<le> int i - (int p - 1)" using assms(1) by simp
  with True show ?thesis by (simp add: value_nth [OF assms(3)])
next
  case False
  then have n: "0 \<le> int i - (int p - 1)" "int i - (int p - 1) = int (i - (p - 1))"
    using assms(1) by simp_all
  from False assms(3) have "i - (p - 1) < length bars - (p - 1)" by simp
  with assms(2) have "i - (p - 1) < length vals" "positive (vals ! (i - (p - 1)))" by blast+
  then have "truthy (num_at vals (int (i - (p - 1))))"
    by (simp add: num_at_nth positive_truthy)
  with n have c: "0 \<le> int i - (int p - 1) \<and> truthy (num_at vals (int i - (int p - 1)))"
    by (simp only: simp_thms)
  show ?thesis unfolding value_nth [OF assms(3)] if_P [OF c] using False by simp
qed

lemma count_from:
  "\<forall>i < n. P (f i) = (k \<le> i) \<Longrightarrow> length (filter P (map f [0..<n])) = n - k"
proof (induction n)
  case 0
  show ?case by simp
next
  case (Suc n)
  then have "length (filter P (map f [0..<n])) = n - k" by simp
  moreover have "P (f n) = (k \<le> n)" using Suc.prems by simp
  ultimately show ?case by (simp add: Suc_diff_le)
qed

lemma warmup_count:
  assumes "\<forall>i < length bars. (value_of (mapIndicatorToData bars vals p ! i) = None) = (i < p - 1)"
  shows "length (filter (\<lambda>pt. value_of pt \<noteq> None) (mapIndicatorToData bars vals p))
           = length bars - (p - 1)"
proof -
  let ?out = "mapIndicatorToData bars vals p"
  have "?out = map (\<lambda>i. ?out ! i) [0..<length bars]"
    using map_nth [of ?out] by (simp add: length_mapIndicatorToData)
  moreover have "length (filter (\<lambda>pt. value_of pt \<noteq> None) (map (\<lambda>i. ?out ! i) [0..<length bars]))
      = length bars - (p - 1)"
    using assms by (intro count_from) auto
  ultimately show ?thesis by simp
qed

lemma warmup_SMA:
  assumes "1 \<le> p" "\<forall>x \<in> set xs. positive x" "length xs = length bars"
  shows "\<forall>j. j < length bars - (p - 1) \<longrightarrow> j < length (SMA p xs) \<and> positive (SMA p xs ! j)"
proof (intro allI impI)
  fix j
  assume "j < length bars - (p - 1)"
  then have "j < length (SMA p xs)" using assms(1,3) by (simp add: length_SMA)
  with positive_SMA [OF assms(1,2)] show "j < length (SMA p xs) \<and> positive (SMA p xs ! j)"
    by simp
qed

lemma warmup_EMA:
  assumes "1 \<le> p" "\<forall>x \<in> set xs. positive x" "length xs = length bars"
  shows "\<forall>j. j < length bars - (p - 1) \<longrightarrow> j < length (EMA p xs) \<and> positive (EMA p xs ! j)"
proof (intro allI impI)
  fix j
  assume j: "j < length bars - (p - 1)"
  then have l: "j < length (EMA p xs)" "p \<le> length xs"
    using assms(1,3) by (simp_all add: length_EMA)
  with positive_EMA [OF assms(1) l(2) assms(2)] show "j < length (EMA p xs) \<and> positive (EMA p xs ! j)"
    by simp
qed

lemma calc_single:
  "toLowerCase indicator = ''sma'' \<Longrightarrow> calculateTechnicalIndicator bars indicator
     = Inr (mapIndicatorToData bars (SMA 20 (map close bars)) 20)"
  "toLowerCase indicator = ''sma20'' \<Longrightarrow> calculateTechnicalIndicator bars indicator
     = Inr (mapIndicatorToData bars (SMA 20 (map close bars)) 20)"
  "toLowerCase indicator = ''sma50'' \<Longrightarrow> calculateTechnicalIndicator bars indicator
     = Inr (mapIndicatorToData bars (SMA 50 (map close bars)) 50)"
  "toLowerCase indicator = ''ema'' \<Longrightarrow> calculateTechnicalIndicator bars indicator
     = Inr (mapIndicatorToData bars (EMA 12 (map close bars)) 12)"
  "toLowerCase indicator = ''ema12'' \<Longrightarrow> calculateTechnicalIndicator bars indicator
     = Inr (mapIndicatorToData bars (EMA 12 (map close bars)) 12)"
  "toLowerCase indicator = ''ema26'' \<Longrightarrow> calculateTechnicalIndicator bars indicator
     = Inr (mapIndicatorToData bars (EMA 26 (map close bars)) 26)"
  "toLowerCase indicator = ''rsi'' \<Longrightarrow> calculateTechnicalIndicator bars indicator
     = Inr (mapIndicatorToData bars (RSI (map close bars) 14) 14)"
  by (simp_all add: calculateTechnicalIndicator_def Let_def)

lemma ramp_values:
  "map value_of (mapIndicatorToData ramp_bars (SMA 3 (map close ramp_bars)) 3)
     = [None, None, Some (Num 2), Some (Num 3), Some (Num 4)]"
  by code_simp

lemma ramp_closes: "map close ramp_bars = [Num 1, Num 2, Num 3, Num 4, Num 5]"
  by code_simp
lemma lower_sma: "toLowerCase ''sma'' = ''sma''"
  by code_simp

lemma lower_rsi: "toLowerCase ''rsi'' = ''rsi''"
  by code_simp

lemma zero_values:
  "map value_of (mapIndicatorToData (flat_bars 20 0) (SMA 20 (map close (flat_bars 20 0))) 20)
     = replicate 20 None"
  by code_simp

text \<open>
  Claim C1, as the code has it. For the simple and the exponential moving average with a
  period \<open>p\<close> of at least 1, over a series of any length whose closes are finite and
  positive, the per-date list has \<open>null\<close> exactly at the first \<open>p - 1\<close> dates, so the
  number of its values that are not \<open>null\<close> is the length of the series less \<open>p - 1\<close>
  (none when the series is shorter). The indicator names \<open>sma20\<close>, \<open>sma50\<close>, \<open>ema12\<close>
  and \<open>ema26\<close> give these lists for the periods 20, 50, 12 and 26. The simple moving
  average of period 3 over the closes 1, 2, 3, 4, 5 gives \<open>null\<close>, \<open>null\<close>, 2, 3, 4.
  The theorem says nothing about the RSI and the ATR.
\<close>

theorem warmup_sma_ema:
  assumes "1 \<le> p" and "\<forall>b \<in> set bars. positive (close b)"
  shows "(\<forall>vals \<in> {SMA p (map close bars), EMA p (map close bars)}.
            (\<forall>i < length bars. (value_of (mapIndicatorToData bars vals p ! i) = None) = (i < p - 1))
            \<and> length (filter (\<lambda>pt. value_of pt \<noteq> None) (mapIndicatorToData bars vals p))
                = length bars - (p - 1))
         \<and> calculateTechnicalIndicator bars ''sma20''
             = Inr (mapIndicatorToData bars (SMA 20 (map close bars)) 20)
         \<and> calculateTechnicalIndicator bars ''sma50''
             = Inr (mapIndicatorToData bars (SMA 50 (map close bars)) 50)
         \<and> calculateTechnicalIndicator bars ''ema12''
             = Inr (mapIndicatorToData bars (EMA 12 (map close bars)) 12)
         \<and> calculateTechnicalIndicator bars ''ema26''
             = Inr (mapIndicatorToData bars (EMA 26 (map close bars)) 26)
         \<and> map close ramp_bars = [Num 1, Num 2, Num 3, Num 4, Num 5]
         \<and> map value_of (mapIndicatorToData ramp_bars (SMA 3 (map close ramp_bars)) 3)
             = [None, None, Some (Num 2), Some (Num 3), Some (Num 4)]"
proof -
  have pos: "\<forall>x \<in> set (map close bars). positive x" using assms(2) by simp
  have s: "\<forall>i < length bars.
      (value_of (mapIndicatorToData bars (SMA p (map close bars)) p ! i) = None) = (i < p - 1)"
    using warmup_values [OF assms(1) warmup_SMA [OF assms(1) pos length_map]] by simp
  have e: "\<forall>i < length bars.
      (value_of (mapIndicatorToData bars (EMA p (map close bars)) p ! i) = None) = (i < p - 1)"
    using warmup_values [OF assms(1) warmup_EMA [OF assms(1) pos length_map]] by simp
  have l: "toLowerCase ''sma20'' = ''sma20''" "toLowerCase ''sma50'' = ''sma50''"
    "toLowerCase ''ema12'' = ''ema12''" "toLowerCase ''ema26'' = ''ema26''"
    by code_simp+
  have both: "\<forall>vals \<in> {SMA p (map close bars), EMA p (map close bars)}.
            (\<forall>i < length bars. (value_of (mapIndicatorToData bars vals p ! i) = None) = (i < p - 1))
            \<and> length (filter (\<lambda>pt. value_of pt \<noteq> None) (mapIndicatorToData bars vals p))
                = length bars - (p - 1)"
  proof
    fix vals
    assume "vals \<in> {SMA p (map close bars), EMA p (map close bars)}"
    then consider "vals = SMA p (map close bars)" | "vals = EMA p (map close bars)" by auto
    then show "(\<forall>i < length bars. (value_of (mapIndicatorToData bars vals p ! i) = None) = (i < p - 1))
            \<and> length (filter (\<lambda>pt. value_of pt \<noteq> None) (mapIndicatorToData bars vals p))
                = length bars - (p - 1)"
    proof cases
      case 1
      show ?thesis unfolding 1 by (rule conjI [OF s warmup_count [OF s]])
    next
      case 2
      show ?thesis unfolding 2 by (rule conjI [OF e warmup_count [OF e]])
    qed
  qed
  note c = calc_single(2) [OF l(1), of bars] calc_single(3) [OF l(2), of bars]
    calc_single(5) [OF l(3), of bars] calc_single(6) [OF l(4), of bars]
  show ?thesis
    by (intro conjI) (fact both c ramp_closes ramp_values)+
qed

theorem warmup_sma_ema_witness:
  "(1::nat) \<le> 3 \<and> list_all (\<lambda>b. positive (close b)) ramp_bars \<and> length ramp_bars = 5
   \<and> value_of (mapIndicatorToData ramp_bars (SMA 3 (map close ramp_bars)) 3 ! 1) = None
   \<and> value_of (mapIndicatorToData ramp_bars (SMA 3 (map close ramp_bars)) 3 ! 2) \<noteq> None
   \<and> value_of (mapIndicatorToData ramp_bars (EMA 3 (map close ramp_bars)) 3 ! 1) = None
   \<and> value_of (mapIndicatorToData ramp_bars (EMA 3 (map close ramp_bars)) 3 ! 2) \<noteq> None
   \<and> length (filter (\<lambda>pt. value_of pt \<noteq> None)
         (mapIndicatorToData ramp_bars (SMA 3 (map close ramp_bars)) 3)) = 3
   \<and> length (filter (\<lambda>pt. value_of pt \<noteq> None)
         (mapIndicatorToData ramp_bars (EMA 3 (map close ramp_bars)) 3)) = 3"
proof -
  have h: "(1::nat) \<le> 3" by simp
  have c: "\<forall>b \<in> set ramp_bars. positive (close b)"
    by (simp add: ramp_bars_def bar_of_def positive_def)
  have n: "length ramp_bars = 5" by (simp add: ramp_bars_def)
  have z: "list_all (\<lambda>b. positive (close b)) ramp_bars" using c by (simp add: list_all_iff)
  let ?s = "mapIndicatorToData ramp_bars (SMA 3 (map close ramp_bars)) 3"
  let ?e = "mapIndicatorToData ramp_bars (EMA 3 (map close ramp_bars)) 3"
  note t = warmup_sma_ema [OF h c]
  from t have b: "\<forall>vals \<in> {SMA 3 (map close ramp_bars), EMA 3 (map close ramp_bars)}.
            (\<forall>i < length ramp_bars.
                (value_of (mapIndicatorToData ramp_bars vals 3 ! i) = None) = (i < 3 - 1))
            \<and> length (filter (\<lambda>pt. value_of pt \<noteq> None) (mapIndicatorToData ramp_bars vals 3))
                = length ramp_bars - (3 - 1)"
    by (rule conjunct1)
  have s: "\<forall>i < length ramp_bars. (value_of (?s ! i) = None) = (i < 3 - 1)"
    and k1: "length (filter (\<lambda>pt. value_of pt \<noteq> None) ?s) = length ramp_bars - (3 - 1)"
    using bspec [OF b, of "SMA 3 (map close ramp_bars)"] by simp_all
  have e: "\<forall>i < length ramp_bars. (value_of (?e ! i) = None) = (i < 3 - 1)"
    and k2: "length (filter (\<lambda>pt. value_of pt \<noteq> None) ?e) = length ramp_bars - (3 - 1)"
    using bspec [OF b, of "EMA 3 (map close ramp_bars)"] by simp_all
  note k = k1 k2
  from s e n have v: "value_of (?s ! 1) = None" "value_of (?s ! 2) \<noteq> None"
    "value_of (?e ! 1) = None" "value_of (?e ! 2) \<noteq> None"
    by simp_all
  from k n have k': "length (filter (\<lambda>pt. value_of pt \<noteq> None) ?s) = 3"
      "length (filter (\<lambda>pt. value_of pt \<noteq> None) ?e) = 3"
    by simp_all
  show ?thesis
    by (intro conjI) (fact h z n v k')+
qed

text \<open>
  The claim as stated fails. A value that is computed as \<open>0\<close> is reported as \<open>null\<close>:
  for 20 bars whose close is 0 the name \<open>sma\<close> gives \<open>null\<close> at all 20 dates, also at
  the last one, where the average of period 20 is defined. And the RSI values do not
  start after 14 dates: for 16 bars whose closes alternate between 1 and 2 the one RSI
  value stands at the 14th date and the last two dates have \<open>null\<close>.
\<close>

theorem warmup_counterexample:
  "(\<exists>out. calculateTechnicalIndicator (flat_bars 20 0) ''sma'' = Inr out
      \<and> map value_of out = replicate 20 None)
   \<and> (\<exists>out. calculateTechnicalIndicator (zigzag_bars 16) ''rsi'' = Inr out
      \<and> map value_of out = replicate 13 None @ [Some (Num (267857 / 5000)), None, None])"
proof -
  have "map value_of (mapIndicatorToData (zigzag_bars 16) (RSI (map close (zigzag_bars 16)) 14) 14)
     = replicate 13 None @ [Some (Num (267857 / 5000)), None, None]"
    unfolding RSI_zigzag by (rule rsi_zigzag_values)
  with zero_values show ?thesis
    unfolding calc_single(1) [OF lower_sma] calc_single(7) [OF lower_rsi] by simp
qed

end
